theory Spec2Isabelle
  imports Main "HOL-Library.Word"
begin

unbundle bit_operations_syntax

section \<open>Common types\<close>

text \<open>
  Go's \<open>byte\<close>, \<open>uint32\<close> and \<open>uint64\<close> are machine words: \<open>+\<close>, \<open>-\<close> and \<open>*\<close> wrap,
  \<open>div\<close>, \<open>mod\<close>, \<open><\<close> and \<open>\<le>\<close> are unsigned. \<open>arbutil.MessageIndex\<close> is a \<open>uint64\<close>.
  A \<open>common.Hash\<close> is a 32-byte array, read here as one 256-bit word, so that the zero
  hash \<open>common.Hash{}\<close> is \<open>0\<close>.
\<close>

type_synonym byte = "8 word"
type_synonym bytes = "byte list"
type_synonym u32 = "32 word"
type_synonym u64 = "64 word"
type_synonym hash = "256 word"

text \<open>
  A Go call that returns \<open>(value, error)\<close> yields both components; the error is
  \<open>None\<close> for \<open>nil\<close>, and the message otherwise. A run-time panic is a value of its own.
\<close>

type_synonym 'a result = "'a \<times> string option"

datatype panic =
    NilDereference
  | DivideByZero
  | IndexOutOfRange
  | SliceBoundsOutOfRange

section \<open>arbnode/sync\_monitor.go\<close>

text \<open>
  The collaborators of the monitor (\<open>InboxReader\<close>, \<open>TransactionStreamer\<close>,
  \<open>SeqCoordinator\<close>, \<open>execution.FullExecutionClient\<close>, the L1 header reader) are
  declared outside this file. Each is a record of what its methods return when the
  monitor calls them; a \<open>nil\<close> pointer or interface is \<open>None\<close>.
\<close>

record SyncMonitorConfig =
  BlockBuildLag :: u64
  BlockBuildSequencerInboxLag :: u64
  CoordinatorMsgLag :: u64
  SafeBlockWaitForBlockValidator :: bool
  FinalizedBlockWaitForBlockValidator :: bool

definition DefaultSyncMonitorConfig :: SyncMonitorConfig where
  "DefaultSyncMonitorConfig =
     \<lparr> BlockBuildLag = 20,
       BlockBuildSequencerInboxLag = 0,
       CoordinatorMsgLag = 15,
       SafeBlockWaitForBlockValidator = False,
       FinalizedBlockWaitForBlockValidator = False \<rparr>"

record BlockValidator =
  GetValidated :: u64

record TransactionStreamer =
  broadcasterQueuedMessagesPos :: u64
  GetMessageCount :: "u64 result"
  validator :: "BlockValidator option"

record FullExecutionClient =
  HeadMessageNumber :: "u64 result"
  MessageIndexToBlockNumber :: "u64 \<Rightarrow> u64"

record L1Header =
  L1Number :: int
  L1Hash :: hash

record HeaderReader =
  LastHeaderWithError :: "L1Header option \<times> string option"

record BatchMetadata =
  MessageCount :: u64

record InboxReader =
  GetLastSeenBatchCount :: u64
  GetLastReadBlockAndBatchCount :: "u64 \<times> u64"
  GetBatchMetadata :: "u64 \<Rightarrow> BatchMetadata result"
  l1Reader :: "HeaderReader option"
  GetSafeMsgCount :: "u64 result"
  GetFinalizedMsgCount :: "u64 result"

record SeqCoordinator =
  GetRemoteMsgCount :: "u64 result"

record SyncMonitor =
  config :: "SyncMonitorConfig option"
  inboxReader :: "InboxReader option"
  txStreamer :: "TransactionStreamer option"
  coordinator :: "SeqCoordinator option"
  exec :: "FullExecutionClient option"
  initialized :: bool

definition NewSyncMonitor :: "SyncMonitorConfig option \<Rightarrow> SyncMonitor" where
  "NewSyncMonitor cfg =
     \<lparr> config = cfg, inboxReader = None, txStreamer = None, coordinator = None,
       exec = None, initialized = False \<rparr>"

definition Initialize ::
  "SyncMonitor \<Rightarrow> InboxReader option \<Rightarrow> TransactionStreamer option \<Rightarrow>
   SeqCoordinator option \<Rightarrow> FullExecutionClient option \<Rightarrow> SyncMonitor" where
  "Initialize s ir ts co ex =
     s\<lparr> inboxReader := ir, txStreamer := ts, coordinator := co, exec := ex,
        initialized := True \<rparr>"

text \<open>
  The values stored in the \<open>map[string]interface{}\<close>, and the map itself as an
  association list with distinct keys: \<open>len\<close> is its length.
\<close>

datatype any =
    AString string
  | AUint64 u64
  | AError string
  | ABigInt int
  | AHash hash

type_synonym progress_map = "(string \<times> any) list"

fun map_set :: "string \<Rightarrow> any \<Rightarrow> progress_map \<Rightarrow> progress_map" where
  "map_set k v [] = [(k, v)]"
| "map_set k v (p # ps) = (if fst p = k then (k, v) # ps else p # map_set k v ps)"

text \<open>The locals of \<open>SyncProgressMap\<close> that its blocks read and write.\<close>

record progress =
  syncing :: bool
  res :: progress_map
  builtMessageCount :: u64
  msgCount :: u64

text \<open>
  The comparison \<open>base + arbutil.MessageIndex(s.config.<lag>) < count\<close> of lines 94,
  116 and 141; it reads through the \<open>config\<close> pointer, which panics when that is \<open>nil\<close>.
\<close>

definition lagExceeded ::
  "SyncMonitorConfig option \<Rightarrow> (SyncMonitorConfig \<Rightarrow> u64) \<Rightarrow> u64 \<Rightarrow> u64 \<Rightarrow> panic + bool" where
  "lagExceeded c lag base count =
     (case c of
        None \<Rightarrow> Inl NilDereference
      | Some cfg \<Rightarrow> Inr (base + lag cfg < count))"

text \<open>Lines 69--97: the feed position, the built message count and the message count.\<close>

definition progress_streamer ::
  "SyncMonitorConfig option \<Rightarrow> TransactionStreamer \<Rightarrow> FullExecutionClient \<Rightarrow> panic + progress" where
  "progress_streamer c ts ex =
     (let pos = broadcasterQueuedMessagesPos ts;
          syncing1 = (pos \<noteq> 0);
          res1 = map_set ''broadcasterQueuedMessagesPos'' (AUint64 pos) [];
          (built0, err1) = HeadMessageNumber ex;
          (syncing2, res2, built) =
            (case err1 of
               Some e \<Rightarrow> (True, map_set ''builtMessageCountError'' (AString e) res1, 0)
             | None \<Rightarrow>
                 (syncing1,
                  map_set ''messageOfLastBlock'' (AUint64 (built0 + 1))
                    (map_set ''blockNum'' (AUint64 (MessageIndexToBlockNumber ex built0)) res1),
                  built0 + 1));
          (count, err2) = GetMessageCount ts
      in case err2 of
           Some e \<Rightarrow>
             Inr \<lparr> syncing = True, res = map_set ''msgCountError'' (AString e) res2,
                   builtMessageCount = built, msgCount = count \<rparr>
         | None \<Rightarrow>
             (case lagExceeded c BlockBuildLag built count of
                Inl p \<Rightarrow> Inl p
              | Inr late \<Rightarrow>
                  Inr \<lparr> syncing = (if late then True else syncing2),
                        res = map_set ''msgCount'' (AUint64 count) res2,
                        builtMessageCount = built, msgCount = count \<rparr>))"

text \<open>Lines 121--131: the last L1 header, when the inbox reader has an L1 reader.\<close>

definition progress_l1 :: "InboxReader \<Rightarrow> progress_map \<Rightarrow> progress_map" where
  "progress_l1 ir m =
     (case l1Reader ir of
        None \<Rightarrow> m
      | Some l1 \<Rightarrow>
          (let (header, herr) = LastHeaderWithError l1;
               m1 = (case herr of
                       Some e \<Rightarrow> map_set ''lastL1HeaderErr'' (AError e) m
                     | None \<Rightarrow> m)
           in case header of
                None \<Rightarrow> m1
              | Some h \<Rightarrow>
                  map_set ''lastl1BlockHash'' (AHash (L1Hash h))
                    (map_set ''lastL1BlockNum'' (ABigInt (L1Number h)) m1)))"

text \<open>Lines 99--132: the inbox reader block, entered when \<open>s.inboxReader != nil\<close>.\<close>

definition progress_inbox ::
  "SyncMonitorConfig option \<Rightarrow> InboxReader \<Rightarrow> progress \<Rightarrow> panic + progress" where
  "progress_inbox c ir p =
     (let batchSeen = GetLastSeenBatchCount ir;
          batchProcessed = snd (GetLastReadBlockAndBatchCount ir);
          syncing1 = (if batchSeen = 0 \<or> batchProcessed < batchSeen then True else syncing p);
          res1 = map_set ''batchProcessed'' (AUint64 batchProcessed)
                   (map_set ''batchSeen'' (AUint64 batchSeen) (res p));
          (processedMetadata, err) = GetBatchMetadata ir (batchProcessed - 1)
      in case err of
           Some e \<Rightarrow>
             Inr (p\<lparr> syncing := True,
                      res := progress_l1 ir (map_set ''batchMetadataError'' (AString e) res1) \<rparr>)
         | None \<Rightarrow>
             (case lagExceeded c BlockBuildSequencerInboxLag (builtMessageCount p)
                     (MessageCount processedMetadata) of
                Inl q \<Rightarrow> Inl q
              | Inr late \<Rightarrow>
                  Inr (p\<lparr> syncing := (if late then True else syncing1),
                           res := progress_l1 ir
                                    (map_set ''messageOfProcessedBatch''
                                       (AUint64 (MessageCount processedMetadata)) res1) \<rparr>)))"

text \<open>Lines 134--145: the coordinator block, entered when \<open>s.coordinator != nil\<close>.\<close>

definition progress_coordinator ::
  "SyncMonitorConfig option \<Rightarrow> SeqCoordinator \<Rightarrow> progress \<Rightarrow> panic + progress" where
  "progress_coordinator c co p =
     (let (coordinatorMessageCount, err) = GetRemoteMsgCount co
      in case err of
           Some e \<Rightarrow>
             Inr (p\<lparr> syncing := True,
                      res := map_set ''coordinatorMsgCountError'' (AString e) (res p) \<rparr>)
         | None \<Rightarrow>
             (case lagExceeded c CoordinatorMsgLag (msgCount p) coordinatorMessageCount of
                Inl q \<Rightarrow> Inl q
              | Inr late \<Rightarrow>
                  Inr (p\<lparr> syncing := (if late then True else syncing p),
                           res := map_set ''coordinatorMessageCount''
                                    (AUint64 coordinatorMessageCount) (res p) \<rparr>)))"

text \<open>
  \<open>SyncProgressMap\<close>. Reading a field of the \<open>nil\<close> streamer or calling a method of the
  \<open>nil\<close> execution client panics.
\<close>

definition SyncProgressMap :: "SyncMonitor \<Rightarrow> panic + progress_map" where
  "SyncProgressMap s =
     (if \<not> initialized s then Inr (map_set ''err'' (AString ''uninitialized'') [])
      else case txStreamer s of
        None \<Rightarrow> Inl NilDereference
      | Some ts \<Rightarrow>
          (case exec s of
             None \<Rightarrow> Inl NilDereference
           | Some ex \<Rightarrow>
               (case progress_streamer (config s) ts ex of
                  Inl q \<Rightarrow> Inl q
                | Inr p1 \<Rightarrow>
                    (case (case inboxReader s of
                             None \<Rightarrow> Inr p1
                           | Some ir \<Rightarrow> progress_inbox (config s) ir p1) of
                       Inl q \<Rightarrow> Inl q
                     | Inr p2 \<Rightarrow>
                         (case (case coordinator s of
                                  None \<Rightarrow> Inr p2
                                | Some co \<Rightarrow> progress_coordinator (config s) co p2) of
                            Inl q \<Rightarrow> Inl q
                          | Inr p3 \<Rightarrow> if \<not> syncing p3 then Inr [] else Inr (res p3))))))"

definition Synced :: "SyncMonitor \<Rightarrow> panic + bool" where
  "Synced s =
     (case SyncProgressMap s of
        Inl q \<Rightarrow> Inl q
      | Inr m \<Rightarrow> Inr (length m = 0))"

definition getLatestValidatedCount :: "SyncMonitor \<Rightarrow> panic + u64 result" where
  "getLatestValidatedCount s =
     (case txStreamer s of
        None \<Rightarrow> Inl NilDereference
      | Some ts \<Rightarrow>
          (case validator ts of
             None \<Rightarrow> Inr (0, Some ''validator not set up'')
           | Some v \<Rightarrow> Inr (GetValidated v, None)))"

text \<open>
  \<open>SafeBlockNumber\<close>. The subtraction \<open>msg - 1\<close> of line 172 is on \<open>uint64\<close> and is not
  guarded.
\<close>

definition SafeBlockNumber :: "SyncMonitor \<Rightarrow> panic + u64 result" where
  "SafeBlockNumber s =
     (case inboxReader s of
        None \<Rightarrow> Inr (0, Some ''not set up for safeblock'')
      | Some ir \<Rightarrow>
          if \<not> initialized s then Inr (0, Some ''not set up for safeblock'')
          else (case GetSafeMsgCount ir of
                  (msg, Some e) \<Rightarrow> Inr (0, Some e)
                | (msg, None) \<Rightarrow>
                    (case config s of
                       None \<Rightarrow> Inl NilDereference
                     | Some c \<Rightarrow>
                         (case (if SafeBlockWaitForBlockValidator c
                                then (case getLatestValidatedCount s of
                                        Inl q \<Rightarrow> Inl q
                                      | Inr (latestValidatedCount, Some e) \<Rightarrow> Inr (Inl e)
                                      | Inr (latestValidatedCount, None) \<Rightarrow>
                                          Inr (Inr (if msg > latestValidatedCount
                                                    then latestValidatedCount else msg)))
                                else Inr (Inr msg)) of
                            Inl q \<Rightarrow> Inl q
                          | Inr (Inl e) \<Rightarrow> Inr (0, Some e)
                          | Inr (Inr msg') \<Rightarrow>
                              (case exec s of
                                 None \<Rightarrow> Inl NilDereference
                               | Some ex \<Rightarrow>
                                   Inr (MessageIndexToBlockNumber ex (msg' - 1), None))))))"

definition FinalizedBlockNumber :: "SyncMonitor \<Rightarrow> panic + u64 result" where
  "FinalizedBlockNumber s =
     (case inboxReader s of
        None \<Rightarrow> Inr (0, Some ''not set up for safeblock'')
      | Some ir \<Rightarrow>
          if \<not> initialized s then Inr (0, Some ''not set up for safeblock'')
          else (case GetFinalizedMsgCount ir of
                  (msg, Some e) \<Rightarrow> Inr (0, Some e)
                | (msg, None) \<Rightarrow>
                    (case config s of
                       None \<Rightarrow> Inl NilDereference
                     | Some c \<Rightarrow>
                         (case (if FinalizedBlockWaitForBlockValidator c
                                then (case getLatestValidatedCount s of
                                        Inl q \<Rightarrow> Inl q
                                      | Inr (latestValidatedCount, Some e) \<Rightarrow> Inr (Inl e)
                                      | Inr (latestValidatedCount, None) \<Rightarrow>
                                          Inr (Inr (if msg > latestValidatedCount
                                                    then latestValidatedCount else msg)))
                                else Inr (Inr msg)) of
                            Inl q \<Rightarrow> Inl q
                          | Inr (Inl e) \<Rightarrow> Inr (0, Some e)
                          | Inr (Inr msg') \<Rightarrow>
                              (case exec s of
                                 None \<Rightarrow> Inl NilDereference
                               | Some ex \<Rightarrow>
                                   Inr (MessageIndexToBlockNumber ex (msg' - 1), None))))))"

text \<open>
  Two concrete monitors. \<open>syncedMonitor\<close> has caught up with its feed.
  \<open>emptyInboxMonitor\<close> has an inbox reader that reports five safe and no finalized
  messages, a validator that has validated none, and an execution client whose
  \<open>MessageIndexToBlockNumber\<close> returns its argument.
\<close>

definition syncedMonitor :: SyncMonitor where
  "syncedMonitor =
     \<lparr> config = Some DefaultSyncMonitorConfig,
       inboxReader = None,
       txStreamer = Some \<lparr> broadcasterQueuedMessagesPos = 0, GetMessageCount = (8, None),
                           validator = None \<rparr>,
       coordinator = None,
       exec = Some \<lparr> HeadMessageNumber = (7, None),
                     MessageIndexToBlockNumber = (\<lambda>m. m + 22) \<rparr>,
       initialized = True \<rparr>"

definition emptyInboxReader :: InboxReader where
  "emptyInboxReader =
     \<lparr> GetLastSeenBatchCount = 0, GetLastReadBlockAndBatchCount = (0, 0),
       GetBatchMetadata = (\<lambda>n. (\<lparr> MessageCount = 0 \<rparr>, Some ''no batch'')),
       l1Reader = None,
       GetSafeMsgCount = (5, None), GetFinalizedMsgCount = (0, None) \<rparr>"

definition idleValidator :: BlockValidator where
  "idleValidator = \<lparr> GetValidated = 0 \<rparr>"

definition idleStreamer :: TransactionStreamer where
  "idleStreamer =
     \<lparr> broadcasterQueuedMessagesPos = 0, GetMessageCount = (0, None),
       validator = Some idleValidator \<rparr>"

definition echoExec :: FullExecutionClient where
  "echoExec = \<lparr> HeadMessageNumber = (0, None), MessageIndexToBlockNumber = (\<lambda>m. m) \<rparr>"

definition waitingConfig :: SyncMonitorConfig where
  "waitingConfig =
     DefaultSyncMonitorConfig \<lparr> SafeBlockWaitForBlockValidator := True \<rparr>"

definition emptyInboxMonitor :: SyncMonitor where
  "emptyInboxMonitor =
     \<lparr> config = Some waitingConfig,
       inboxReader = Some emptyInboxReader,
       txStreamer = Some idleStreamer,
       coordinator = None,
       exec = Some echoExec,
       initialized = True \<rparr>"

section \<open>cmd/replay/main.go: the preimage readers\<close>

text \<open>
  \<open>wavmio.ResolveTypedPreimage\<close> is the preimage oracle; it is a parameter
  \<open>resolve\<close> of every reader below. The preimage types are those of \<open>arbutil\<close>.
\<close>

datatype PreimageType =
    Keccak256PreimageType
  | Sha2_256PreimageType
  | EthVersionedHashPreimageType

type_synonym preimage_oracle = "PreimageType \<Rightarrow> hash \<Rightarrow> bytes result"

subsection \<open>BlobPreimageReader.GetBlobs\<close>

text \<open>
  A \<open>kzg4844.Blob\<close> is an array of 131072 bytes, so \<open>len(blob)\<close> is that constant and
  \<open>copy(blob[:], preimage)\<close> of a preimage of that length yields the preimage. The
  function returns either the blobs or an error: the oracle's own, or the length
  mismatch of line 141, which names the hash, the length found and the length expected.
\<close>

definition BlobLength :: nat where
  "BlobLength = 131072"

datatype blob_error =
    ResolveError string
  | BadBlobLength hash nat nat

fun getBlobsLoop :: "preimage_oracle \<Rightarrow> hash list \<Rightarrow> bytes list \<Rightarrow> blob_error + bytes list" where
  "getBlobsLoop resolve [] blobs = Inr blobs"
| "getBlobsLoop resolve (h # versionedHashes) blobs =
     (case resolve EthVersionedHashPreimageType h of
        (preimage, Some e) \<Rightarrow> Inl (ResolveError e)
      | (preimage, None) \<Rightarrow>
          if length preimage \<noteq> BlobLength
          then Inl (BadBlobLength h (length preimage) BlobLength)
          else getBlobsLoop resolve versionedHashes (blobs @ [preimage]))"

definition GetBlobs :: "preimage_oracle \<Rightarrow> hash \<Rightarrow> hash list \<Rightarrow> blob_error + bytes list" where
  "GetBlobs resolve batchBlockHash versionedHashes = getBlobsLoop resolve versionedHashes []"

text \<open>
  The condition under which the loop of \<open>GetBlobs\<close> goes on to the next hash: the
  oracle returned no error (line 137) and a preimage of the length of a blob (line 140).
\<close>

definition blobResolved :: "preimage_oracle \<Rightarrow> hash \<Rightarrow> bool" where
  "blobResolved resolve h \<longleftrightarrow>
     snd (resolve EthVersionedHashPreimageType h) = None \<and>
     length (fst (resolve EthVersionedHashPreimageType h)) = BlobLength"

subsection \<open>PreimageCelestiaReader.Read\<close>

text \<open>
  The package \<open>das/celestia/tree\<close> is a parameter: its constant \<open>NamespaceSize\<close> and
  its two functions, which take the oracle and a root and return the leaves behind it,
  or an error. The Celestia network fixes \<open>NamespaceSize\<close> at 29.
\<close>

record tree_package =
  NamespaceSize :: nat
  MerkleTreeContent :: "(hash \<Rightarrow> bytes result) \<Rightarrow> hash \<Rightarrow> bytes list result"
  NmtContent :: "(hash \<Rightarrow> bytes result) \<Rightarrow> bytes \<Rightarrow> bytes list result"

record BlobPointer =
  BlockHeight :: u64
  Start :: u64
  SharesLength :: u64
  TxCommitment :: hash
  DataRoot :: hash

record SquareData =
  RowRoots :: "bytes list"
  ColumnRoots :: "bytes list"
  Rows :: "bytes list list"
  SquareSize :: u64
  StartRow :: u64
  EndRow :: u64

text \<open>The errors \<open>Read\<close> returns, one per \<open>fmt.Errorf\<close> of the source, by line.\<close>

datatype read_error =
    TreeError string          \<comment> \<open>lines 165 and 243: the error of the tree package\<close>
  | StartIndexGtOdsSize       \<comment> \<open>line 179\<close>
  | SharesLengthZero          \<comment> \<open>line 184\<close>
  | FirstRowGtSharesLength    \<comment> \<open>line 197\<close>
  | PartialRowNoRemainder     \<comment> \<open>line 218\<close>
  | EndRowTimesOdsSizeZero    \<comment> \<open>line 223\<close>
  | StartIndexGtOdsSize'      \<comment> \<open>line 231\<close>
  | EndIndexGtOdsSize         \<comment> \<open>line 235\<close>
  | OdsSizeGtRowLength        \<comment> \<open>line 248\<close>
  | StartIndexGtEndIndex      \<comment> \<open>line 254\<close>
  | ShortShare                \<comment> \<open>line 269\<close>
  | LengthMismatch            \<comment> \<open>line 282\<close>

datatype failure =
    Panic panic
  | Error read_error

text \<open>
  Lines 192--227: the end of the blob, as the pair of \<open>endIndex\<close> (before line 228
  reduces it modulo \<open>squareSize\<close>) and \<open>endRow\<close>. Dividing by \<open>odsSize = 0\<close> panics.
\<close>

definition blobEnd :: "u64 \<Rightarrow> u64 \<Rightarrow> u64 \<Rightarrow> u64 \<Rightarrow> BlobPointer \<Rightarrow> failure + (u64 \<times> u64)" where
  "blobEnd squareSize odsSize startRow firtsRowShares blobPointer =
     (if SharesLength blobPointer \<le> firtsRowShares
      then Inr (Start blobPointer + SharesLength blobPointer - 1, startRow)
      else if firtsRowShares > SharesLength blobPointer
      then Inl (Error FirstRowGtSharesLength)
      else
        let remainingShares = SharesLength blobPointer - firtsRowShares
        in if odsSize = 0 then Inl (Panic DivideByZero)
           else
             let rowsNeeded = remainingShares div odsSize;
                 endRow = startRow + rowsNeeded
                            + (if remainingShares mod odsSize > 0 then 1 else 0);
                 partialRow = (SharesLength blobPointer mod squareSize > 0)
             in if partialRow
                then if remainingShares mod odsSize < 1
                     then Inl (Error PartialRowNoRemainder)
                     else Inr (endRow * odsSize + (remainingShares mod odsSize - 1), endRow)
                else if endRow * odsSize < 1
                     then Inl (Error EndRowTimesOdsSizeZero)
                     else Inr (endRow * odsSize - 1, endRow))"

text \<open>Lines 174--236: the rows and indices the pointer covers.\<close>

record span =
  start_row :: u64
  start_index :: u64
  end_row :: u64
  end_index :: u64

definition blobSpan :: "u64 \<Rightarrow> BlobPointer \<Rightarrow> failure + span" where
  "blobSpan squareSize blobPointer =
     (let odsSize = squareSize div 2
      in if squareSize = 0 then Inl (Panic DivideByZero)
         else
           let startRow = Start blobPointer div squareSize;
               startIndex = Start blobPointer mod squareSize
           in if startIndex > odsSize then Inl (Error StartIndexGtOdsSize)
              else
                let firtsRowShares = odsSize - startIndex
                in if SharesLength blobPointer = 0 then Inl (Error SharesLengthZero)
                   else
                     (case blobEnd squareSize odsSize startRow firtsRowShares blobPointer of
                        Inl f \<Rightarrow> Inl f
                      | Inr (endIndex0, endRow) \<Rightarrow>
                          let endIndex = endIndex0 mod squareSize
                          in if startIndex > odsSize then Inl (Error StartIndexGtOdsSize')
                             else if endIndex + 1 > odsSize then Inl (Error EndIndexGtOdsSize)
                             else Inr \<lparr> start_row = startRow, start_index = startIndex,
                                        end_row = endRow, end_index = endIndex \<rparr>))"

text \<open>
  Lines 240--265: the loop over the rows. The index \<open>i\<close> is a natural number: the
  body indexes \<open>rowRoots[i]\<close> first, which panics unless \<open>i\<close> is below the length of
  \<open>rowRoots\<close>, so \<open>i++\<close> never wraps. A Go length is below \<open>2^63\<close>, so a comparison with
  \<open>uint64(len(row))\<close> is a comparison of natural numbers. The slices of \<open>odsRow\<close> are
  within its length by the checks of lines 178, 234, 247 and 253.
\<close>

function collectRows ::
  "(bytes \<Rightarrow> bytes list result) \<Rightarrow> bytes list \<Rightarrow> u64 \<Rightarrow> span \<Rightarrow> nat \<Rightarrow>
   bytes list list \<Rightarrow> bytes list \<Rightarrow> failure + (bytes list list \<times> bytes list)" where
  "collectRows nmt rowRoots odsSize sp i rows shares =
     (if i \<le> unat (end_row sp)
      then
        if length rowRoots \<le> i then Inl (Panic IndexOutOfRange)
        else
          (case nmt (rowRoots ! i) of
             (row, Some e) \<Rightarrow> Inl (Error (TreeError e))
           | (row, None) \<Rightarrow>
               if unat odsSize > length row then Inl (Error OdsSizeGtRowLength)
               else
                 let odsRow = take (unat odsSize) row
                 in if start_row sp = end_row sp
                    then if start_index sp > end_index sp + 1
                         then Inl (Error StartIndexGtEndIndex)
                         else Inr (rows @ [row],
                                   shares @ drop (unat (start_index sp))
                                              (take (unat (end_index sp + 1)) odsRow))
                    else if i = unat (start_row sp)
                    then collectRows nmt rowRoots odsSize sp (i + 1) (rows @ [row])
                           (shares @ drop (unat (start_index sp)) odsRow)
                    else if i = unat (end_row sp)
                    then collectRows nmt rowRoots odsSize sp (i + 1) (rows @ [row])
                           (shares @ take (unat (end_index sp + 1)) odsRow)
                    else collectRows nmt rowRoots odsSize sp (i + 1) (rows @ [row])
                           (shares @ odsRow))
      else Inr (rows, shares))"
  by pat_completeness auto
termination
  by (relation "measure (\<lambda>(nmt, rowRoots, odsSize, sp, i, rows, shares). unat (end_row sp) + 1 - i)")
    auto

text \<open>\<open>binary.BigEndian.Uint32\<close>, on the four bytes it is given.\<close>

definition BigEndian_Uint32 :: "bytes \<Rightarrow> u32" where
  "BigEndian_Uint32 b =
     ucast (b ! 3) OR push_bit 8 (ucast (b ! 2)) OR push_bit 16 (ucast (b ! 1))
       OR push_bit 24 (ucast (b ! 0))"

text \<open>
  Lines 272--280: the loop over the shares. \<open>share[29:]\<close> panics when the share has
  fewer than 29 bytes, and \<open>share[NamespaceSize+5:]\<close> and \<open>share[NamespaceSize+1:]\<close>
  panic when what is left is shorter than that.
\<close>

fun trimShares :: "nat \<Rightarrow> nat \<Rightarrow> bytes list \<Rightarrow> bytes \<Rightarrow> failure + bytes" where
  "trimShares ns i [] data = Inr data"
| "trimShares ns i (share # rest) data =
     (if length share < 29 then Inl (Panic SliceBoundsOutOfRange)
      else
        let share' = drop 29 share
        in if i = 0
           then if length share' < ns + 5 then Inl (Panic SliceBoundsOutOfRange)
                else trimShares ns (i + 1) rest (data @ drop (ns + 5) share')
           else if length share' < ns + 1 then Inl (Panic SliceBoundsOutOfRange)
                else trimShares ns (i + 1) rest (data @ drop (ns + 1) share'))"

text \<open>
  Lines 267--284: the blob behind the shares. \<open>shares[0]\<close> panics on no shares;
  \<open>uint32(len(data))\<close> keeps the low 32 bits of the length.
\<close>

definition deframe :: "nat \<Rightarrow> bytes list \<Rightarrow> failure + bytes" where
  "deframe ns shares =
     (case shares of
        [] \<Rightarrow> Inl (Panic IndexOutOfRange)
      | share0 # _ \<Rightarrow>
          if ns * 2 + 1 > length share0 \<or> ns * 2 + 5 > length share0
          then Inl (Error ShortShare)
          else
            let sequenceLength =
                  BigEndian_Uint32 (drop (ns * 2 + 1) (take (ns * 2 + 5) share0))
            in (case trimShares ns 0 shares [] of
                  Inl f \<Rightarrow> Inl f
                | Inr data \<Rightarrow>
                    if sequenceLength > of_nat (length data) then Inl (Error LengthMismatch)
                    else Inr (take (unat sequenceLength) data)))"

definition Read :: "tree_package \<Rightarrow> preimage_oracle \<Rightarrow> BlobPointer \<Rightarrow> failure + (bytes \<times> SquareData)" where
  "Read tree resolve blobPointer =
     (let sha2 = resolve Sha2_256PreimageType
      in case MerkleTreeContent tree sha2 (DataRoot blobPointer) of
           (leaves, Some e) \<Rightarrow> Inl (Error (TreeError e))
         | (leaves, None) \<Rightarrow>
             let squareSize = (of_nat (length leaves) :: u64) div 2;
                 rowRoots = take (unat squareSize) leaves;
                 odsSize = squareSize div 2
             in (case blobSpan squareSize blobPointer of
                   Inl f \<Rightarrow> Inl f
                 | Inr sp \<Rightarrow>
                     (case collectRows (NmtContent tree sha2) rowRoots odsSize sp
                             (unat (start_row sp)) [] [] of
                        Inl f \<Rightarrow> Inl f
                      | Inr (rows, shares) \<Rightarrow>
                          (case deframe (NamespaceSize tree) shares of
                             Inl f \<Rightarrow> Inl f
                           | Inr data \<Rightarrow>
                               Inr (data,
                                    \<lparr> RowRoots = rowRoots,
                                      ColumnRoots = drop (unat squareSize) leaves,
                                      Rows = rows,
                                      SquareSize = squareSize,
                                      StartRow = start_row sp,
                                      EndRow = end_row sp \<rparr>)))))"

section \<open>cmd/replay/main.go: the inbox and the replay\<close>

subsection \<open>The tape of package wavmio\<close>

text \<open>
  A Go slice has a length and a capacity. A slice expression \<open>s[:n]\<close> is in range when
  \<open>n\<close> is at most the capacity of \<open>s\<close>, whatever its length (The Go Programming
  Language Specification, Slice expressions); it panics otherwise. The elements
  between the length and the capacity are those of the underlying array.
\<close>

record byte_slice =
  elems :: bytes
  spare :: bytes

definition len :: "byte_slice \<Rightarrow> nat" where
  "len s = length (elems s)"

definition cap :: "byte_slice \<Rightarrow> nat" where
  "cap s = length (elems s) + length (spare s)"

definition slice_to :: "byte_slice \<Rightarrow> nat \<Rightarrow> panic + byte_slice" where
  "slice_to s n =
     (if cap s < n then Inl SliceBoundsOutOfRange
      else Inr \<lparr> elems = take n (elems s @ spare s), spare = drop n (elems s @ spare s) \<rparr>)"

text \<open>
  Modelled from the spec: package \<open>wavmio\<close>, whose source is not among the files, as
  section 4.1 describes it: the inbox cursor, the position within the message, the
  sequencer inbox slots, and the last block hash and send root that the replay writes.
\<close>

record wavm =
  GetInboxPosition :: u64
  GetPositionWithinMessage :: u64
  ReadInboxMessage :: "u64 \<Rightarrow> byte_slice"
  GetLastBlockHash :: hash
  SendRoot :: hash

definition SetLastBlockHash :: "hash \<Rightarrow> wavm \<Rightarrow> wavm" where
  "SetLastBlockHash h w = w\<lparr> GetLastBlockHash := h \<rparr>"

definition SetSendRoot :: "hash \<Rightarrow> wavm \<Rightarrow> wavm" where
  "SetSendRoot h w = w\<lparr> SendRoot := h \<rparr>"

subsection \<open>WavmInbox\<close>

text \<open>
  \<open>PeekSequencerInbox\<close> evaluates \<open>res[:8]\<close> as an argument of \<open>log.Info\<close>, then
  returns \<open>res\<close>, the zero hash and no error.
\<close>

definition PeekSequencerInbox :: "wavm \<Rightarrow> panic + (byte_slice \<times> hash \<times> string option)" where
  "PeekSequencerInbox w =
     (let pos = GetInboxPosition w;
          payload = ReadInboxMessage w pos
      in case slice_to payload 8 of
           Inl p \<Rightarrow> Inl p
         | Inr logged \<Rightarrow> Inr (payload, 0, None))"

subsection \<open>readMessage\<close>

record ArbitrumChainParams =
  DataAvailabilityCommittee :: bool
  CelestiaDA :: bool
  GenesisBlockNum :: u64

text \<open>\<open>params.ArbitrumChainParams{}\<close>, the zero value.\<close>

definition zeroChainParams :: ArbitrumChainParams where
  "zeroChainParams =
     \<lparr> DataAvailabilityCommittee = False, CelestiaDA = False, GenesisBlockNum = 0 \<rparr>"

text \<open>
  Modelled from the spec: the keyset validation modes of package \<open>arbstate\<close>, whose
  declaration is not among the files; section 3 lists \<open>PanicIfInvalid\<close>, \<open>AssumeValid\<close>
  and \<open>DontValidate\<close>. The providers are those the three constructors
  \<open>NewDAProviderDAS\<close>, \<open>NewDAProviderCelestia\<close> and \<open>NewDAProviderBlobReader\<close> build
  around the readers of this file.
\<close>

datatype KeysetValidationMode =
    KeysetPanicIfInvalid
  | KeysetAssumeValid
  | KeysetDontValidate

datatype DataAvailabilityProvider =
    DAProviderDAS
  | DAProviderCelestia
  | DAProviderBlobReader

text \<open>The arguments of \<open>arbstate.NewInboxMultiplexer\<close>; the backend is \<open>WavmInbox{}\<close>.\<close>

record InboxMultiplexer =
  delayedMessagesRead :: u64
  daProviders :: "DataAvailabilityProvider list"
  keysetValidationMode :: KeysetValidationMode

record Header =
  Root :: hash
  Nonce :: u64

record MessageWithMetadata =
  Message :: bytes
  DelayedMessagesRead :: u64

text \<open>The panics of \<open>main\<close> and of the functions it calls, by line.\<close>

datatype fatal =
    ErrorResolvingPreimage string         \<comment> \<open>line 43\<close>
  | ErrorParsingHeader string             \<comment> \<open>line 48\<close>
  | ErrorOpeningStateDb string            \<comment> \<open>line 342\<close>
  | MultipleDAProviders bool bool         \<comment> \<open>line 352\<close>
  | ErrorReadingInboxMultiplexer string   \<comment> \<open>line 380\<close>
  | ErrorOpeningArbOSState string         \<comment> \<open>line 393\<close>
  | ErrorGettingChainId string            \<comment> \<open>line 397\<close>
  | ErrorGettingGenesisBlockNum string    \<comment> \<open>line 401\<close>
  | ErrorGettingChainConfig string        \<comment> \<open>line 405\<close>
  | ErrorParsingChainConfig string        \<comment> \<open>line 412\<close>
  | ChainIdMismatch int int               \<comment> \<open>line 415\<close>
  | GenesisBlockNumMismatch u64 u64       \<comment> \<open>line 418\<close>
  | ErrorHardcodedChainConfig string      \<comment> \<open>lines 424 and 456\<close>
  | ErrorProducingBlock string            \<comment> \<open>line 439\<close>
  | ErrorParsingInitMessage string        \<comment> \<open>line 449\<close>
  | ErrorInitializingArbOS string         \<comment> \<open>line 462\<close>
  | ErrorDeserializingHeaderExtraInfo     \<comment> \<open>line 475\<close>

text \<open>
  Lines 346--376 of \<open>readMessage\<close>: the multiplexer it constructs, or the panic of
  line 352. The mode is chosen from the position within the message that the backend
  reports.
\<close>

definition newInboxMultiplexer ::
  "Header option \<Rightarrow> ArbitrumChainParams \<Rightarrow> wavm \<Rightarrow> fatal + InboxMultiplexer" where
  "newInboxMultiplexer lastBlockHeader arbChainParams w =
     (let delayed = (case lastBlockHeader of None \<Rightarrow> 0 | Some h \<Rightarrow> Nonce h)
      in if DataAvailabilityCommittee arbChainParams \<and> CelestiaDA arbChainParams
         then Inl (MultipleDAProviders (DataAvailabilityCommittee arbChainParams)
                     (CelestiaDA arbChainParams))
         else
           let dasReader = DataAvailabilityCommittee arbChainParams;
               celestiaReader = CelestiaDA arbChainParams;
               mode = (if GetPositionWithinMessage w > 0
                       then KeysetDontValidate else KeysetPanicIfInvalid);
               providers = (if dasReader then [DAProviderDAS] else [])
                             @ (if celestiaReader then [DAProviderCelestia] else [])
                             @ [DAProviderBlobReader]
           in Inr \<lparr> delayedMessagesRead = delayed, daProviders = providers,
                      keysetValidationMode = mode \<rparr>)"

text \<open>
  \<open>readMessage\<close>. \<open>Pop\<close> is the method of the multiplexer, of package \<open>arbstate\<close>: a
  parameter, which reads and moves the tape.
\<close>

type_synonym pop = "InboxMultiplexer \<Rightarrow> wavm \<Rightarrow> MessageWithMetadata result \<times> wavm"

definition readMessage ::
  "pop \<Rightarrow> Header option \<Rightarrow> ArbitrumChainParams \<Rightarrow> wavm \<Rightarrow> (fatal + MessageWithMetadata) \<times> wavm" where
  "readMessage Pop lastBlockHeader arbChainParams w =
     (case newInboxMultiplexer lastBlockHeader arbChainParams w of
        Inl f \<Rightarrow> (Inl f, w)
      | Inr inboxMultiplexer \<Rightarrow>
          (case Pop inboxMultiplexer w of
             ((message, Some e), w') \<Rightarrow> (Inl (ErrorReadingInboxMultiplexer e), w')
           | ((message, None), w') \<Rightarrow> (Inr message, w')))"

subsection \<open>main\<close>

record HeaderInfo =
  HeaderSendRoot :: hash
  ArbOSFormatVersion :: u64

record Block =
  BlockHash :: hash
  BlockHeader :: Header

record ChainConfig =
  ChainID :: int
  ChainParams :: ArbitrumChainParams

record ParsedInitMessage =
  InitChainId :: int
  InitChainConfig :: "ChainConfig option"

text \<open>
  What \<open>main\<close> calls outside this file: the oracle, the RLP decoder, the state
  database (\<open>'db\<close>), the ArbOS state (\<open>'os\<close>) and its three getters, the JSON decoder,
  the hardcoded chain configurations of \<open>chaininfo\<close>, the multiplexer's \<open>Pop\<close>, the
  block producer, the init message parser, the ArbOS initialiser, and
  \<open>types.DeserializeHeaderExtraInformation\<close>. Logging, \<open>wavmio.StubInit\<close>,
  \<open>wavmio.StubFinal\<close>, \<open>gethhook.RequireHookedGeth\<close> and \<open>populateEcdsaCaches\<close>
  decide nothing that \<open>main\<close> computes and are left out.
\<close>

record ('db, 'os) replay_env =
  ResolveTypedPreimage :: preimage_oracle
  DecodeHeader :: "bytes \<Rightarrow> Header result"
  NewDeterministic :: "hash \<Rightarrow> 'db result"
  OpenSystemArbosState :: "'db \<Rightarrow> 'os result"
  ArbosChainId :: "'os \<Rightarrow> int result"
  ArbosGenesisBlockNum :: "'os \<Rightarrow> u64 result"
  ArbosChainConfig :: "'os \<Rightarrow> bytes result"
  UnmarshalChainConfig :: "bytes \<Rightarrow> ChainConfig result"
  GetChainConfig :: "int \<Rightarrow> u64 \<Rightarrow> ChainConfig result"
  InboxPop :: pop
  ProduceBlock :: "MessageWithMetadata \<Rightarrow> Header option \<Rightarrow> 'db \<Rightarrow> ChainConfig \<Rightarrow> Block result"
  ParseInitMessage :: "bytes \<Rightarrow> ParsedInitMessage result"
  InitializeArbosState :: "'db \<Rightarrow> ChainConfig \<Rightarrow> ParsedInitMessage \<Rightarrow> 'db result"
  MakeGenesisBlock :: "'db \<Rightarrow> ChainConfig \<Rightarrow> Block"
  DeserializeHeaderExtraInformation :: "Header \<Rightarrow> HeaderInfo"

definition getBlockHeaderByHash :: "('db, 'os) replay_env \<Rightarrow> hash \<Rightarrow> fatal + Header" where
  "getBlockHeaderByHash env h =
     (case ResolveTypedPreimage env Keccak256PreimageType h of
        (enc, Some e) \<Rightarrow> Inl (ErrorResolvingPreimage e)
      | (enc, None) \<Rightarrow>
          (case DecodeHeader env enc of
             (header, Some e) \<Rightarrow> Inl (ErrorParsingHeader e)
           | (header, None) \<Rightarrow> Inr header))"

text \<open>Lines 391--426: the chain configuration of an initialised chain.\<close>

definition loadChainConfig :: "('db, 'os) replay_env \<Rightarrow> 'db \<Rightarrow> fatal + ChainConfig" where
  "loadChainConfig env statedb =
     (case OpenSystemArbosState env statedb of
        (os, Some e) \<Rightarrow> Inl (ErrorOpeningArbOSState e)
      | (os, None) \<Rightarrow>
     (case ArbosChainId env os of
        (chainId, Some e) \<Rightarrow> Inl (ErrorGettingChainId e)
      | (chainId, None) \<Rightarrow>
     (case ArbosGenesisBlockNum env os of
        (genesisBlockNum, Some e) \<Rightarrow> Inl (ErrorGettingGenesisBlockNum e)
      | (genesisBlockNum, None) \<Rightarrow>
     (case ArbosChainConfig env os of
        (chainConfigJson, Some e) \<Rightarrow> Inl (ErrorGettingChainConfig e)
      | (chainConfigJson, None) \<Rightarrow>
          if length chainConfigJson > 0
          then (case UnmarshalChainConfig env chainConfigJson of
                  (chainConfig, Some e) \<Rightarrow> Inl (ErrorParsingChainConfig e)
                | (chainConfig, None) \<Rightarrow>
                    if ChainID chainConfig \<noteq> chainId
                    then Inl (ChainIdMismatch chainId (ChainID chainConfig))
                    else if GenesisBlockNum (ChainParams chainConfig) \<noteq> genesisBlockNum
                    then Inl (GenesisBlockNumMismatch genesisBlockNum
                                (GenesisBlockNum (ChainParams chainConfig)))
                    else Inr chainConfig)
          else (case GetChainConfig env chainId genesisBlockNum of
                  (chainConfig, Some e) \<Rightarrow> Inl (ErrorHardcodedChainConfig e)
                | (chainConfig, None) \<Rightarrow> Inr chainConfig)))))"

text \<open>Lines 387--441: the next block of an initialised chain.\<close>

definition nextBlock ::
  "('db, 'os) replay_env \<Rightarrow> Header option \<Rightarrow> 'db \<Rightarrow> wavm \<Rightarrow> (fatal + Block) \<times> wavm" where
  "nextBlock env lastBlockHeader statedb w =
     (case loadChainConfig env statedb of
        Inl f \<Rightarrow> (Inl f, w)
      | Inr chainConfig \<Rightarrow>
          (case readMessage (InboxPop env) lastBlockHeader (ChainParams chainConfig) w of
             (Inl f, w') \<Rightarrow> (Inl f, w')
           | (Inr message, w') \<Rightarrow>
               (case ProduceBlock env message lastBlockHeader statedb chainConfig of
                  (newBlock, Some e) \<Rightarrow> (Inl (ErrorProducingBlock e), w')
                | (newBlock, None) \<Rightarrow> (Inr newBlock, w'))))"

text \<open>Lines 442--467: the genesis block, from the init message.\<close>

definition genesisBlock ::
  "('db, 'os) replay_env \<Rightarrow> Header option \<Rightarrow> 'db \<Rightarrow> wavm \<Rightarrow> (fatal + Block) \<times> wavm" where
  "genesisBlock env lastBlockHeader statedb w =
     (case readMessage (InboxPop env) lastBlockHeader zeroChainParams w of
        (Inl f, w') \<Rightarrow> (Inl f, w')
      | (Inr message, w') \<Rightarrow>
          (case ParseInitMessage env (Message message) of
             (initMessage, Some e) \<Rightarrow> (Inl (ErrorParsingInitMessage e), w')
           | (initMessage, None) \<Rightarrow>
               (case (case InitChainConfig initMessage of
                        Some chainConfig \<Rightarrow> Inr chainConfig
                      | None \<Rightarrow>
                          (case GetChainConfig env (InitChainId initMessage) 0 of
                             (chainConfig, Some e) \<Rightarrow> Inl (ErrorHardcodedChainConfig e)
                           | (chainConfig, None) \<Rightarrow> Inr chainConfig)) of
                  Inl f \<Rightarrow> (Inl f, w')
                | Inr chainConfig \<Rightarrow>
                    (case InitializeArbosState env statedb chainConfig initMessage of
                       (statedb', Some e) \<Rightarrow> (Inl (ErrorInitializingArbOS e), w')
                     | (statedb', None) \<Rightarrow>
                         (Inr (MakeGenesisBlock env statedb' chainConfig), w')))))"

text \<open>Lines 327--467: the new block.\<close>

definition newBlockOf :: "('db, 'os) replay_env \<Rightarrow> wavm \<Rightarrow> (fatal + Block) \<times> wavm" where
  "newBlockOf env w =
     (let lastBlockHash = GetLastBlockHash w
      in case (if lastBlockHash \<noteq> 0
               then (case getBlockHeaderByHash env lastBlockHash of
                       Inl f \<Rightarrow> Inl f
                     | Inr header \<Rightarrow> Inr (Some header))
               else Inr None) of
           Inl f \<Rightarrow> (Inl f, w)
         | Inr lastBlockHeader \<Rightarrow>
             let lastBlockStateRoot = (case lastBlockHeader of None \<Rightarrow> 0 | Some h \<Rightarrow> Root h)
             in (case NewDeterministic env lastBlockStateRoot of
                   (statedb, Some e) \<Rightarrow> (Inl (ErrorOpeningStateDb e), w)
                 | (statedb, None) \<Rightarrow>
                     if lastBlockStateRoot \<noteq> 0
                     then nextBlock env lastBlockHeader statedb w
                     else genesisBlock env lastBlockHeader statedb w))"

text \<open>
  Lines 469--478: the check of the new header's extra information, then the two
  writes to the tape.
\<close>

definition writeNewBlock :: "('db, 'os) replay_env \<Rightarrow> Block \<Rightarrow> wavm \<Rightarrow> (fatal + unit) \<times> wavm" where
  "writeNewBlock env newBlock w =
     (let newBlockHash = BlockHash newBlock;
          extraInfo = DeserializeHeaderExtraInformation env (BlockHeader newBlock)
      in if ArbOSFormatVersion extraInfo = 0
         then (Inl ErrorDeserializingHeaderExtraInfo, w)
         else (Inr (), SetSendRoot (HeaderSendRoot extraInfo) (SetLastBlockHash newBlockHash w)))"

definition main :: "('db, 'os) replay_env \<Rightarrow> wavm \<Rightarrow> (fatal + unit) \<times> wavm" where
  "main env w =
     (case newBlockOf env w of
        (Inl f, w') \<Rightarrow> (Inl f, w')
      | (Inr newBlock, w') \<Rightarrow> writeNewBlock env newBlock w')"

section \<open>Concrete inputs\<close>

text \<open>
  A first share with sequence length \<open>n\<close> (below 256) and a continuation share, for
  \<open>NamespaceSize = 29\<close>: 59 header bytes, then the four bytes of the sequence length
  in the first share, then the payload.
\<close>

definition firstShare :: "byte \<Rightarrow> bytes \<Rightarrow> bytes" where
  "firstShare n payload = replicate 59 0 @ [0, 0, 0, n] @ payload"

definition nextShare :: "bytes \<Rightarrow> bytes" where
  "nextShare payload = replicate 59 0 @ payload"

text \<open>
  A first share whose four sequence length bytes are \<open>b0\<close>, \<open>b1\<close>, \<open>b2\<close> and \<open>b3\<close>, in
  this order.
\<close>

definition lengthShare :: "byte \<Rightarrow> byte \<Rightarrow> byte \<Rightarrow> byte \<Rightarrow> bytes \<Rightarrow> bytes" where
  "lengthShare b0 b1 b2 b3 payload = replicate 59 0 @ [b0, b1, b2, b3] @ payload"

text \<open>
  A data square of \<open>square_size = 4\<close>: the data root has eight leaves, the one-byte
  roots \<open>[0]\<close> to \<open>[7]\<close>; row \<open>r\<close> has four shares, and the share at index \<open>c\<close> of row
  \<open>r\<close> is a first share of sequence length 1 with the one payload byte \<open>16 r + c\<close>.
\<close>

definition squareShare :: "byte \<Rightarrow> byte \<Rightarrow> bytes" where
  "squareShare r c = firstShare 1 [16 * r + c]"

definition squareRow :: "byte \<Rightarrow> bytes list" where
  "squareRow r = [squareShare r 0, squareShare r 1, squareShare r 2, squareShare r 3]"

definition squareTree :: tree_package where
  "squareTree =
     \<lparr> NamespaceSize = 29,
       MerkleTreeContent = (\<lambda>orc root. ([[0], [1], [2], [3], [4], [5], [6], [7]], None)),
       NmtContent = (\<lambda>orc root. (squareRow (hd root), None)) \<rparr>"

text \<open>The same square, but the share at index 1 of every row has ten bytes only.\<close>

definition shortShareTree :: tree_package where
  "shortShareTree =
     squareTree \<lparr> NmtContent :=
       (\<lambda>orc root. ([squareShare (hd root) 0, replicate 10 0,
                       squareShare (hd root) 2, squareShare (hd root) 3], None)) \<rparr>"

definition noPreimages :: preimage_oracle where
  "noPreimages = (\<lambda>ty h. ([], Some ''unknown preimage''))"

definition pointerAt :: "u64 \<Rightarrow> u64 \<Rightarrow> BlobPointer" where
  "pointerAt s n =
     \<lparr> BlockHeight = 1, Start = s, SharesLength = n, TxCommitment = 0, DataRoot = 0 \<rparr>"

text \<open>
  An oracle of versioned hashes: hash 3 resolves to 131071 bytes, every other hash
  \<open>h\<close> to 131072 bytes.
\<close>

definition blobOracle :: preimage_oracle where
  "blobOracle =
     (\<lambda>ty h. if ty = EthVersionedHashPreimageType
              then (if h = 3 then (replicate 131071 0, None)
                    else (replicate 131072 (ucast h), None))
              else ([], Some ''unknown preimage''))"

text \<open>
  A tape whose current inbox slot holds three bytes in an array of 128, and one whose
  slot holds the same three bytes in an array of three.
\<close>

definition roomyTape :: wavm where
  "roomyTape =
     \<lparr> GetInboxPosition = 0, GetPositionWithinMessage = 0,
       ReadInboxMessage = (\<lambda>pos. \<lparr> elems = [1, 2, 3], spare = replicate 125 0 \<rparr>),
       GetLastBlockHash = 1, SendRoot = 0 \<rparr>"

definition tightTape :: wavm where
  "tightTape =
     roomyTape \<lparr> ReadInboxMessage := (\<lambda>pos. \<lparr> elems = [1, 2, 3], spare = [] \<rparr>) \<rparr>"

definition fullTape :: wavm where
  "fullTape =
     roomyTape \<lparr> ReadInboxMessage :=
       (\<lambda>pos. \<lparr> elems = [1, 2, 3, 4, 5, 6, 7, 8, 9], spare = [] \<rparr>) \<rparr>"


definition resumedTape :: wavm where
  "resumedTape = roomyTape \<lparr> GetPositionWithinMessage := 3 \<rparr>"

text \<open>
  A replay of an initialised chain (the last block hash is 1, its state root 7, its
  nonce 5) whose ArbOS state holds no chain configuration, so that the hardcoded one
  is used: it has the chain parameters \<open>chainParams\<close>. \<open>Pop\<close> returns an empty
  message with the multiplexer's count of delayed messages and moves the position
  within the message by one; the block produced has hash 9, and its header
  deserialises to send root 3 and the ArbOS format version \<open>version\<close>.
\<close>

definition replayEnv :: "ArbitrumChainParams \<Rightarrow> u64 \<Rightarrow> (unit, unit) replay_env" where
  "replayEnv chainParams version =
     \<lparr> ResolveTypedPreimage = (\<lambda>ty h. ([1], None)),
       DecodeHeader = (\<lambda>enc. (\<lparr> Root = 7, Nonce = 5 \<rparr>, None)),
       NewDeterministic = (\<lambda>root. ((), None)),
       OpenSystemArbosState = (\<lambda>db. ((), None)),
       ArbosChainId = (\<lambda>os. (412346, None)),
       ArbosGenesisBlockNum = (\<lambda>os. (0, None)),
       ArbosChainConfig = (\<lambda>os. ([], None)),
       UnmarshalChainConfig =
         (\<lambda>json. (\<lparr> ChainID = 0, ChainParams = zeroChainParams \<rparr>, Some ''no json'')),
       GetChainConfig = (\<lambda>chainId num. (\<lparr> ChainID = chainId, ChainParams = chainParams \<rparr>, None)),
       InboxPop =
         (\<lambda>mux w. ((\<lparr> Message = [], DelayedMessagesRead = delayedMessagesRead mux \<rparr>, None),
                    w\<lparr> GetPositionWithinMessage := GetPositionWithinMessage w + 1 \<rparr>)),
       ProduceBlock =
         (\<lambda>message header db chainConfig.
            (\<lparr> BlockHash = 9,
               BlockHeader = \<lparr> Root = 8, Nonce = DelayedMessagesRead message \<rparr> \<rparr>, None)),
       ParseInitMessage =
         (\<lambda>payload. (\<lparr> InitChainId = 412346, InitChainConfig = None \<rparr>, None)),
       InitializeArbosState = (\<lambda>db chainConfig initMessage. ((), None)),
       MakeGenesisBlock =
         (\<lambda>db chainConfig. \<lparr> BlockHash = 2, BlockHeader = \<lparr> Root = 4, Nonce = 0 \<rparr> \<rparr>),
       DeserializeHeaderExtraInformation =
         (\<lambda>header. \<lparr> HeaderSendRoot = 3, ArbOSFormatVersion = version \<rparr>) \<rparr>"

definition celestiaParams :: ArbitrumChainParams where
  "celestiaParams = zeroChainParams \<lparr> CelestiaDA := True \<rparr>"


section \<open>Properties of the preimage readers\<close>

subsection \<open>The rows and indices of a blob\<close>

lemma next_row_mod_nat:
  fixes q k :: nat
  assumes "0 < k"
  shows "((q + 1) * k) mod (2 * k) = (if even q then k else 0)"
proof (cases "even q")
  case True
  then obtain j where "q = 2 * j" by (auto elim: evenE)
  then have "(q + 1) * k = k + j * (2 * k)" by (simp add: algebra_simps)
  then have "((q + 1) * k) mod (2 * k) = k mod (2 * k)" by (metis mod_mult_self1)
  with assms True show ?thesis by simp
next
  case False
  then obtain j where "q = 2 * j + 1" by (auto elim: oddE)
  then have "(q + 1) * k = (j + 1) * (2 * k)" by (simp add: algebra_simps)
  then have "((q + 1) * k) mod (2 * k) = 0" by simp
  with False show ?thesis by simp
qed

lemma u64_half:
  fixes squareSize :: u64
  assumes "squareSize mod 2 = 0"
  shows "unat squareSize = 2 * unat (squareSize div 2)"
proof -
  have "unat (squareSize mod 2) = 0"
    using assms by simp
  then have "unat squareSize mod 2 = 0"
    by (simp add: unat_mod)
  then show ?thesis
    by (simp add: unat_div) presburger
qed

lemma next_row_end_index:
  fixes squareSize start :: u64
  assumes even: "squareSize mod 2 = 0" and big: "4 \<le> squareSize"
  shows "((start div squareSize + 1) * (squareSize div 2)) mod squareSize =
         (if (start div squareSize) mod 2 = 0 then squareSize div 2 else 0)"
proof -
  let ?s = "unat squareSize" and ?k = "unat (squareSize div 2)" and ?q = "unat (start div squareSize)"
  have s: "?s = 2 * ?k" by (rule u64_half [OF even])
  have s4: "4 \<le> ?s" using big by (simp add: word_le_nat_alt)
  have k: "0 < ?k" using s s4 by simp
  have slt: "?s < 2 ^ 64" using unsigned_less [of squareSize] by simp
  have q: "?q = unat start div ?s" by (simp add: unat_div)
  have "?q * ?s \<le> unat start" by (simp add: q)
  moreover have "unat start < 2 ^ 64" using unsigned_less [of start] by simp
  ultimately have qs: "?q * (2 * ?k) < 2 ^ 64" using s by simp
  have q62: "?q * 4 < 2 ^ 64"
  proof -
    have "?q * 4 \<le> ?q * ?s" using s4 by simp
    also have "\<dots> \<le> unat start" by (simp add: q)
    also have "\<dots> < 2 ^ 64" using unsigned_less [of start] by simp
    finally show ?thesis .
  qed
  have q1: "unat (start div squareSize + 1) = ?q + 1"
  proof -
    have "unat (start div squareSize) + unat (1 :: u64) < 2 ^ LENGTH(64)"
      using q62 by simp
    then show ?thesis
      by (simp add: unat_add_lem [THEN iffD1])
  qed
  have bound: "(?q + 1) * ?k < 2 ^ 64"
  proof -
    have "2 * ?k < 2 ^ 64" using s slt by simp
    with qs show ?thesis by (simp add: algebra_simps)
  qed
  have prod: "unat ((start div squareSize + 1) * (squareSize div 2)) = (?q + 1) * ?k"
  proof -
    have "unat (start div squareSize + 1) * unat (squareSize div 2) < 2 ^ LENGTH(64)"
      using bound q1 by simp
    then show ?thesis
      using q1 by (simp add: unat_mult_lem [THEN iffD1])
  qed
  have end_nat: "unat (((start div squareSize + 1) * (squareSize div 2)) mod squareSize) =
        (if even ?q then ?k else 0)"
    using next_row_mod_nat [OF k, of ?q] prod s by (simp add: unat_mod)
  have parity: "even ?q \<longleftrightarrow> (start div squareSize) mod 2 = 0"
  proof -
    have "(start div squareSize) mod 2 = 0 \<longleftrightarrow> unat ((start div squareSize) mod 2) = 0"
      by (simp add: unat_eq_0)
    also have "\<dots> \<longleftrightarrow> ?q mod 2 = 0"
      by (simp add: unat_mod)
    finally show ?thesis
      by presburger
  qed
  show ?thesis
    using end_nat parity by (simp add: word_unat_eq_iff)
qed


text \<open>
  Claim C1, as the source has it. For a square of even size, at least 4, take a
  pointer that starts at an index of its row within the original data square and has
  one share more than its first row holds (\<open>shares_length = first_row_shares + 1\<close>).
  The source computes \<open>end_row = start_row + 1\<close> and
  \<open>endIndex = endRow * odsSize + 0\<close>, reduced modulo \<open>squareSize\<close>: that is 0 when
  \<open>end_row\<close> is even, and \<open>odsSize\<close> when it is odd. So from an odd start row the
  pointer crosses into the next row and ends at index 0 of it, and from an even start
  row (row 0 of the specification's scenario) the check of line 234 fails and the
  error of line 235 is returned.
\<close>

theorem blobSpan_one_share_into_next_row:
  assumes even: "squareSize mod 2 = 0" and big: "4 \<le> squareSize"
    and idx: "Start bp mod squareSize \<le> squareSize div 2"
    and len: "SharesLength bp = squareSize div 2 - Start bp mod squareSize + 1"
  shows "blobSpan squareSize bp =
    (if (Start bp div squareSize) mod 2 = 0 then Inl (Error EndIndexGtOdsSize)
     else Inr \<lparr> start_row = Start bp div squareSize,
                start_index = Start bp mod squareSize,
                end_row = Start bp div squareSize + 1,
                end_index = 0 \<rparr>)"
proof -
  let ?o = "squareSize div 2" and ?r = "Start bp mod squareSize"
  let ?f = "?o - ?r" and ?q = "Start bp div squareSize"
  have s: "unat squareSize = 2 * unat ?o" by (rule u64_half [OF even])
  have s4: "4 \<le> unat squareSize" using big by (simp add: word_le_nat_alt)
  have o2: "2 \<le> unat ?o" using s s4 by simp
  have slt: "unat squareSize < 2 ^ 64" using unsigned_less [of squareSize] by simp
  have o63: "2 * unat ?o < 2 ^ 64" using s slt by simp
  have sq0: "squareSize \<noteq> 0" using s4 by auto
  have o0: "?o \<noteq> 0" using o2 by auto
  have r: "unat ?r \<le> unat ?o" using idx by (simp add: word_le_nat_alt)
  have f: "unat ?f = unat ?o - unat ?r" using idx by (simp add: unat_sub)
  have l: "unat (SharesLength bp) = unat ?f + 1"
  proof -
    have "unat ?f + unat (1 :: u64) < 2 ^ LENGTH(64)" using f o63 by simp
    then show ?thesis
      unfolding len by (simp add: unat_add_lem [THEN iffD1])
  qed
  have l0: "SharesLength bp \<noteq> 0" using l by auto
  have gt: "\<not> SharesLength bp \<le> ?f" using l by (simp add: word_le_nat_alt)
  have ngt: "\<not> ?f > SharesLength bp" using l by (simp add: word_less_nat_alt)
  have rem: "SharesLength bp - ?f = 1" unfolding len by simp
  have d: "(1 :: u64) div ?o = 0" using o2 by (simp add: word_unat_eq_iff unat_div)
  have m: "(1 :: u64) mod ?o = 1" using o2 by (simp add: word_unat_eq_iff unat_mod)
  have part: "SharesLength bp mod squareSize > 0"
  proof -
    have "unat (SharesLength bp) < unat squareSize" using l f s o2 by simp
    then have "unat (SharesLength bp mod squareSize) = unat (SharesLength bp)"
      by (simp add: unat_mod)
    then show ?thesis using l by (simp add: word_less_nat_alt)
  qed
  have e: "((?q + 1) * ?o) mod squareSize = (if ?q mod 2 = 0 then ?o else 0)"
    by (rule next_row_end_index [OF even big])
  have o1: "?o + 1 > ?o"
  proof -
    have "unat ?o + unat (1 :: u64) < 2 ^ LENGTH(64)" using o63 by simp
    then have "unat (?o + 1) = unat ?o + 1" by (simp add: unat_add_lem [THEN iffD1])
    then show ?thesis by (simp add: word_less_nat_alt)
  qed
  have one: "\<not> (1 :: u64) > ?o" using o2 by (simp add: word_less_nat_alt)
  have nidx: "\<not> ?r > ?o" using idx by simp
  show ?thesis
    using sq0 o0 nidx l0 gt ngt rem d m part e o1 one
    by (simp add: blobSpan_def blobEnd_def Let_def)
qed

text \<open>
  The specification's scenario: \<open>square_size = 4\<close>, \<open>ods_size = 2\<close>, \<open>start = 1\<close>,
  \<open>shares_length = 2\<close>. \<open>Read\<close> returns the error and no share. One row further down
  (\<open>start = 5\<close>) the loop takes the share at index 1 of row 1 and the share at index 0
  of row 2.
\<close>

theorem blobSpan_one_share_into_next_row_witness:
  "blobEnd 4 2 0 1 (pointerAt 1 2) = Inr (2, 1) \<and>
   blobSpan 4 (pointerAt 1 2) = Inl (Error EndIndexGtOdsSize) \<and>
   Read squareTree noPreimages (pointerAt 1 2) = Inl (Error EndIndexGtOdsSize) \<and>
   blobSpan 4 (pointerAt 5 2) =
     Inr \<lparr> start_row = 1, start_index = 1, end_row = 2, end_index = 0 \<rparr> \<and>
   collectRows (NmtContent squareTree (noPreimages Sha2_256PreimageType)) [[0], [1], [2], [3]] 2
     \<lparr> start_row = 1, start_index = 1, end_row = 2, end_index = 0 \<rparr> 1 [] [] =
     Inr ([squareRow 1, squareRow 2], [squareShare 1 1, squareShare 2 0])"
proof -
  have square: "(4 :: u64) mod 2 = 0" "(4 :: u64) \<le> 4"
    by simp_all
  have row0: "Start (pointerAt 1 2) mod 4 \<le> 4 div 2"
    "SharesLength (pointerAt 1 2) = 4 div 2 - Start (pointerAt 1 2) mod 4 + 1"
    "Start (pointerAt 1 2) div 4 mod 2 = 0"
    by (simp_all add: pointerAt_def word_le_nat_alt)
  have row1: "Start (pointerAt 5 2) mod 4 \<le> 4 div 2"
    "SharesLength (pointerAt 5 2) = 4 div 2 - Start (pointerAt 5 2) mod 4 + 1"
    "Start (pointerAt 5 2) div 4 mod 2 \<noteq> 0"
    "Start (pointerAt 5 2) div 4 = 1" "Start (pointerAt 5 2) mod 4 = 1"
    by (simp_all add: pointerAt_def word_le_nat_alt)
  have "blobEnd 4 2 0 1 (pointerAt 1 2) = Inr (2, 1)"
    by (simp add: blobEnd_def pointerAt_def Let_def word_le_nat_alt word_less_nat_alt)
  moreover have fails: "blobSpan 4 (pointerAt 1 2) = Inl (Error EndIndexGtOdsSize)"
    using blobSpan_one_share_into_next_row [OF square row0(1,2)] row0(3)
    by simp
  moreover from fails
  have "Read squareTree noPreimages (pointerAt 1 2) = Inl (Error EndIndexGtOdsSize)"
    by (simp add: Read_def squareTree_def)
  moreover have "blobSpan 4 (pointerAt 5 2) =
      Inr \<lparr> start_row = 1, start_index = 1, end_row = 2, end_index = 0 \<rparr>"
    using blobSpan_one_share_into_next_row [OF square row1(1,2)] row1(3,4,5)
    by simp
  moreover have "collectRows (NmtContent squareTree (noPreimages Sha2_256PreimageType))
      [[0], [1], [2], [3]] 2
      \<lparr> start_row = 1, start_index = 1, end_row = 2, end_index = 0 \<rparr> 1 [] [] =
      Inr ([squareRow 1, squareRow 2], [squareShare 1 1, squareShare 2 0])"
    by (simp add: squareTree_def squareRow_def)
  ultimately show ?thesis
    by simp
qed

subsection \<open>Deframing the shares\<close>

lemma trimShares_rest:
  "\<forall>s \<in> set rest. 29 + (ns + 1) \<le> length s \<Longrightarrow>
   trimShares ns (Suc i) rest data =
     Inr (data @ concat (map (\<lambda>s. drop (ns + 1) (drop 29 s)) rest))"
  by (induction rest arbitrary: i data) (auto simp: Let_def)

lemma trimShares_first:
  assumes "29 + (ns + 5) \<le> length s0" and "\<forall>s \<in> set rest. 29 + (ns + 1) \<le> length s"
  shows "trimShares ns 0 (s0 # rest) [] =
     Inr (drop (ns + 5) (drop 29 s0) @ concat (map (\<lambda>s. drop (ns + 1) (drop 29 s)) rest))"
  using assms trimShares_rest [of rest ns 0 "drop (ns + 5) (drop 29 s0)"]
  by (auto simp: Let_def)

lemma trimShares_failure:
  "trimShares ns i shares data = Inl f \<Longrightarrow> f = Panic SliceBoundsOutOfRange"
  by (induction shares arbitrary: i data) (auto simp: Let_def split: if_splits)

lemma trimShares_short:
  "s \<in> set rest \<Longrightarrow> length s < 29 + (ns + 1) \<Longrightarrow>
   trimShares ns (Suc i) rest data = Inl (Panic SliceBoundsOutOfRange)"
  by (induction rest arbitrary: i data) (auto simp: Let_def)

lemma u32_gt_length: "length xs < unat (n :: u32) \<Longrightarrow> n > of_nat (length xs)"
proof -
  assume longer: "length xs < unat n"
  have "unat (of_nat (length xs) :: u32) \<le> length xs"
    by (simp add: unat_of_nat)
  with longer show ?thesis
    by (simp add: word_less_nat_alt)
qed

lemma u32_eq_length: "unat (n :: u32) = length xs \<Longrightarrow> \<not> n > of_nat (length xs)"
proof -
  assume "unat n = length xs"
  then have "(of_nat (length xs) :: u32) = n"
    by (metis of_nat_unat ucast_id)
  then show ?thesis
    by simp
qed

text \<open>
  \<open>binary.BigEndian.Uint32\<close> reads four bytes as the number whose most significant
  byte comes first.
\<close>

lemma byte_lt: "unat (x :: byte) < 256"
  using unsigned_less [of x, where 'a = nat] by simp

lemma BigEndian_Uint32_sum:
  "BigEndian_Uint32 [a, b, c, d] =
     of_nat (2 ^ 24 * unat a + 2 ^ 16 * unat b + 2 ^ 8 * unat c + unat d)"
proof -
  let ?d = "ucast d :: u32" and ?c = "push_bit 8 (ucast c) :: u32"
  let ?b = "push_bit 16 (ucast b) :: u32" and ?a = "push_bit 24 (ucast a) :: u32"
  have ba: "?b + ?a = ?b OR ?a"
    by (rule disjunctive_add) (auto simp: bit_simps dest: bit_imp_le_length)
  have cba: "?c + (?b OR ?a) = ?c OR ?b OR ?a"
    by (rule disjunctive_add) (auto simp: bit_simps dest: bit_imp_le_length)
  have dcba: "?d + (?c OR ?b OR ?a) = ?d OR ?c OR ?b OR ?a"
    by (rule disjunctive_add) (auto simp: bit_simps dest: bit_imp_le_length)
  have "BigEndian_Uint32 [a, b, c, d] = ?d + (?c + (?b + ?a))"
    using ba cba dcba by (simp add: BigEndian_Uint32_def)
  also have "\<dots> = of_nat (2 ^ 24 * unat a + 2 ^ 16 * unat b + 2 ^ 8 * unat c + unat d)"
    by (simp add: push_bit_eq_mult of_nat_unat)
  finally show ?thesis .
qed

lemma BigEndian_Uint32_unat:
  "unat (BigEndian_Uint32 [a, b, c, d]) =
     2 ^ 24 * unat a + 2 ^ 16 * unat b + 2 ^ 8 * unat c + unat d"
proof -
  have "2 ^ 24 * unat a + 2 ^ 16 * unat b + 2 ^ 8 * unat c + unat d < 2 ^ 32"
    using byte_lt [of a] byte_lt [of b] byte_lt [of c] byte_lt [of d] by simp
  then have "(2 ^ 24 * unat a + 2 ^ 16 * unat b + 2 ^ 8 * unat c + unat d) mod 2 ^ LENGTH(32) =
      2 ^ 24 * unat a + 2 ^ 16 * unat b + 2 ^ 8 * unat c + unat d"
    by simp
  then show ?thesis
    by (simp only: BigEndian_Uint32_sum unat_of_nat)
qed

lemma length_bytes:
  assumes "k + 4 \<le> length s"
  shows "BigEndian_Uint32 (drop k (take (k + 4) s)) =
     BigEndian_Uint32 [s ! k, s ! (k + 1), s ! (k + 2), s ! (k + 3)]"
  using assms by (simp add: BigEndian_Uint32_def)


text \<open>
  Claim C4. When every share is long enough for what is cut from it, the deframing
  step drops the leading 29 bytes of every share, then \<open>NamespaceSize + 5\<close> more bytes
  of the first share and \<open>NamespaceSize + 1\<close> more of every other share, and
  concatenates what is left in order. With \<open>n\<close> the number whose four bytes, most
  significant first, are bytes \<open>2 NamespaceSize + 1\<close> to \<open>2 NamespaceSize + 4\<close> of the
  first share (the sequence length that \<open>binary.BigEndian.Uint32\<close> reads there), the
  result is the first \<open>n\<close> bytes of that concatenation; it is the \<open>LengthMismatch\<close>
  error when \<open>n\<close> exceeds its length, and the whole concatenation when \<open>n\<close> equals its
  length.
\<close>

theorem deframe_strips_and_truncates:
  assumes "ns * 2 + 5 \<le> length s0" and "29 + (ns + 5) \<le> length s0"
    and "\<forall>s \<in> set rest. 29 + (ns + 1) \<le> length s"
    and "payload =
           drop (ns + 5) (drop 29 s0) @ concat (map (\<lambda>s. drop (ns + 1) (drop 29 s)) rest)"
    and "n = 2 ^ 24 * unat (s0 ! (ns * 2 + 1)) + 2 ^ 16 * unat (s0 ! (ns * 2 + 2))
             + 2 ^ 8 * unat (s0 ! (ns * 2 + 3)) + unat (s0 ! (ns * 2 + 4))"
  shows
    "deframe ns (s0 # rest) =
       (if (of_nat n :: u32) > of_nat (length payload) then Inl (Error LengthMismatch)
        else Inr (take n payload)) \<and>
     (n > length payload \<longrightarrow> deframe ns (s0 # rest) = Inl (Error LengthMismatch)) \<and>
     (n = length payload \<longrightarrow> deframe ns (s0 # rest) = Inr payload) \<and>
     (n \<le> length payload \<and> length payload < 2 ^ 32 \<longrightarrow>
        deframe ns (s0 # rest) = Inr (take n payload)) \<and>
     unat (BigEndian_Uint32 (drop (ns * 2 + 1) (take (ns * 2 + 5) s0))) = n"
proof -
  let ?m = "BigEndian_Uint32 (drop (ns * 2 + 1) (take (ns * 2 + 5) s0))"
  have "?m = BigEndian_Uint32 [s0 ! (ns * 2 + 1), s0 ! (ns * 2 + 2), s0 ! (ns * 2 + 3),
      s0 ! (ns * 2 + 4)]"
  proof -
    have k: "ns * 2 + 5 = ns * 2 + 1 + 4" "ns * 2 + 2 = ns * 2 + 1 + 1"
      "ns * 2 + 3 = ns * 2 + 1 + 2" "ns * 2 + 4 = ns * 2 + 1 + 3"
      by simp_all
    have "ns * 2 + 1 + 4 \<le> length s0"
      using assms(1) by simp
    then show ?thesis
      unfolding k by (rule length_bytes)
  qed
  then have m: "unat ?m = n"
    using assms(5) by (simp add: BigEndian_Uint32_unat)
  then have m': "?m = of_nat n"
    by (metis of_nat_unat ucast_id)
  have d: "deframe ns (s0 # rest) =
       (if ?m > of_nat (length payload) then Inl (Error LengthMismatch)
        else Inr (take (unat ?m) payload))"
    using assms(1-4) trimShares_first [of ns s0 rest]
    by (simp add: deframe_def Let_def)
  have small: "\<not> ?m > of_nat (length payload)" if "n \<le> length payload" "length payload < 2 ^ 32"
  proof -
    have "unat (of_nat (length payload) :: u32) = length payload"
      using that(2) by (simp add: unat_of_nat)
    with that(1) m show ?thesis
      by (simp add: word_less_nat_alt)
  qed
  show ?thesis
    using d m u32_gt_length [of payload ?m] u32_eq_length [of ?m payload] small
    unfolding m' [symmetric]
    by auto
qed

theorem deframe_strips_and_truncates_witness:
  "deframe 29 [lengthShare 0 0 1 2 (replicate 300 7), nextShare [12, 13]] = Inr (replicate 258 7) \<and>
   deframe 29 [lengthShare 0 1 0 0 (replicate 300 7), nextShare [12, 13]] =
     Inl (Error LengthMismatch) \<and>
   deframe 29 [lengthShare 0 0 0 4 [10, 11], nextShare [12, 13]] = Inr [10, 11, 12, 13]"
proof -
  have long: "29 * 2 + 5 \<le> length (lengthShare b0 b1 b2 b3 p)"
    "29 + (29 + 5) \<le> length (lengthShare b0 b1 b2 b3 p)"
    "\<forall>s \<in> set [nextShare [12, 13]]. 29 + (29 + 1) \<le> length s" for b0 b1 b2 b3 p
    by (simp_all add: lengthShare_def nextShare_def)
  have payload: "p @ [12, 13] =
      drop (29 + 5) (drop 29 (lengthShare b0 b1 b2 b3 p))
        @ concat (map (\<lambda>s. drop (29 + 1) (drop 29 s)) [nextShare [12, 13]])" for b0 b1 b2 b3 p
    by (simp add: lengthShare_def nextShare_def)
  have n: "2 ^ 24 * unat b0 + 2 ^ 16 * unat b1 + 2 ^ 8 * unat b2 + unat b3 =
      2 ^ 24 * unat (lengthShare b0 b1 b2 b3 p ! (29 * 2 + 1))
      + 2 ^ 16 * unat (lengthShare b0 b1 b2 b3 p ! (29 * 2 + 2))
      + 2 ^ 8 * unat (lengthShare b0 b1 b2 b3 p ! (29 * 2 + 3))
      + unat (lengthShare b0 b1 b2 b3 p ! (29 * 2 + 4))" for b0 b1 b2 b3 p
    by (simp add: lengthShare_def nth_append)
  from deframe_strips_and_truncates [OF long payload n, of 0 0 1 2 "replicate 300 7"]
    deframe_strips_and_truncates [OF long payload n, of 0 1 0 0 "replicate 300 7"]
    deframe_strips_and_truncates [OF long payload n, of 0 0 0 4 "[10, 11]"]
  show ?thesis
    by simp
qed

text \<open>
  Claim C5, as the source has it: the length check of line 268 is made on the first
  share only. When the first share passes it and some later share has fewer than
  \<open>29 + NamespaceSize + 1\<close> bytes, the deframing step does not return an error: a
  slice expression of the loop (lines 274--279) panics.
\<close>

theorem deframe_short_share_panics:
  assumes "ns * 2 + 5 \<le> length s0"
    and "s \<in> set rest" and "length s < 29 + (ns + 1)"
  shows "deframe ns (s0 # rest) = Inl (Panic SliceBoundsOutOfRange)"
proof (cases "trimShares ns 0 (s0 # rest) []")
  case (Inl f)
  with assms(1) trimShares_failure [OF Inl] show ?thesis
    by (simp add: deframe_def Let_def)
next
  case (Inr data)
  with assms(2,3) trimShares_short [of s rest ns 0] show ?thesis
    by (auto simp: Let_def split: if_splits)
qed

theorem deframe_short_share_panics_witness:
  "deframe 29 [squareShare 0 0, replicate 10 0] = Inl (Panic SliceBoundsOutOfRange) \<and>
   Read shortShareTree noPreimages (pointerAt 0 2) = Inl (Panic SliceBoundsOutOfRange)"
proof -
  have first: "29 * 2 + 5 \<le> length (squareShare 0 0)"
    by (simp add: squareShare_def firstShare_def)
  have short: "replicate 10 (0 :: byte) \<in> set [replicate 10 0]"
    "length (replicate 10 (0 :: byte)) < 29 + (29 + 1)"
    by simp_all
  have panics: "deframe 29 [squareShare 0 0, replicate 10 0] = Inl (Panic SliceBoundsOutOfRange)"
    by (rule deframe_short_share_panics [OF first short])
  have "blobSpan 4 (pointerAt 0 2) =
      Inr \<lparr> start_row = 0, start_index = 0, end_row = 0, end_index = 1 \<rparr>"
    by (simp add: blobSpan_def blobEnd_def pointerAt_def Let_def word_le_nat_alt
        word_less_nat_alt)
  with panics show ?thesis
    by (simp add: Read_def shortShareTree_def squareTree_def word_le_nat_alt word_less_nat_alt)
qed

subsection \<open>Further properties of \<open>Read\<close>\<close>

text \<open>
  A pointer with \<open>shares_length = 0\<close> is refused before any row is read: whatever
  \<open>NmtContent\<close> would return, \<open>Read\<close> ends at the division of line 174 (empty
  square), at the error of line 179 or at the error of line 184.
\<close>

theorem Read_no_shares:
  assumes "SharesLength blobPointer = 0"
    and "MerkleTreeContent tree (resolve Sha2_256PreimageType) (DataRoot blobPointer) =
           (leaves, None)"
    and "squareSize = (of_nat (length leaves) :: u64) div 2"
  shows "Read tree resolve blobPointer =
     (if squareSize = 0 then Inl (Panic DivideByZero)
      else if Start blobPointer mod squareSize > squareSize div 2
      then Inl (Error StartIndexGtOdsSize)
      else Inl (Error SharesLengthZero))"
  using assms by (simp add: Read_def blobSpan_def Let_def)

theorem Read_no_shares_witness:
  "SharesLength (pointerAt 1 0) = 0 \<and>
   Read squareTree noPreimages (pointerAt 1 0) = Inl (Error SharesLengthZero) \<and>
   Read shortShareTree noPreimages (pointerAt 1 0) = Inl (Error SharesLengthZero)"
proof -
  have none: "SharesLength (pointerAt 1 0) = 0"
    by (simp add: pointerAt_def)
  have leaves: "MerkleTreeContent squareTree (noPreimages Sha2_256PreimageType)
        (DataRoot (pointerAt 1 0)) = ([[0], [1], [2], [3], [4], [5], [6], [7]], None)"
    and leaves': "MerkleTreeContent shortShareTree (noPreimages Sha2_256PreimageType)
        (DataRoot (pointerAt 1 0)) = ([[0], [1], [2], [3], [4], [5], [6], [7]], None)"
    by (simp_all add: squareTree_def shortShareTree_def)
  have size: "(4 :: u64) = of_nat (length [[0], [1], [2], [3], [4], [5], [6], [7 :: byte]]) div 2"
    by simp
  have index: "\<not> Start (pointerAt 1 0) mod 4 > 4 div 2"
    by (simp add: pointerAt_def word_less_nat_alt)
  from Read_no_shares [where tree = squareTree and resolve = noPreimages
        and blobPointer = "pointerAt 1 0" and squareSize = 4, OF none leaves size]
    Read_no_shares [where tree = shortShareTree and resolve = noPreimages
        and blobPointer = "pointerAt 1 0" and squareSize = 4, OF none leaves' size]
    none index
  show ?thesis
    by simp
qed

text \<open>
  A pointer that ends with the last share of the original data square's part of its
  first row (\<open>start_index + shares_length - 1 = ods_size - 1\<close>), and whose last share
  index does not exceed \<open>2^64 - 1\<close>, stays in that row and ends at index
  \<open>ods_size - 1\<close>; when the row is there and holds at least \<open>ods_size\<close> shares, the loop
  takes exactly \<open>shares_length\<close> shares, those from \<open>start_index\<close> on.
\<close>

theorem blobSpan_to_end_of_first_row:
  assumes nz: "SharesLength bp \<noteq> 0"
    and fill: "unat (Start bp mod squareSize) + unat (SharesLength bp) = unat (squareSize div 2)"
    and fits: "unat (Start bp) + unat (SharesLength bp) \<le> 2 ^ 64"
  shows "blobSpan squareSize bp =
           Inr \<lparr> start_row = Start bp div squareSize,
                 start_index = Start bp mod squareSize,
                 end_row = Start bp div squareSize,
                 end_index = squareSize div 2 - 1 \<rparr> \<and>
         (unat (Start bp div squareSize) < length rowRoots \<and>
          nmt (rowRoots ! unat (Start bp div squareSize)) = (row, None) \<and>
          unat (squareSize div 2) \<le> length row \<longrightarrow>
            collectRows nmt rowRoots (squareSize div 2)
              \<lparr> start_row = Start bp div squareSize,
                start_index = Start bp mod squareSize,
                end_row = Start bp div squareSize,
                end_index = squareSize div 2 - 1 \<rparr>
              (unat (Start bp div squareSize)) [] [] =
            Inr ([row], take (unat (SharesLength bp)) (drop (unat (Start bp mod squareSize)) row)) \<and>
            length (take (unat (SharesLength bp)) (drop (unat (Start bp mod squareSize)) row)) =
              unat (SharesLength bp))"
proof -
  let ?o = "squareSize div 2" and ?r = "Start bp mod squareSize" and ?q = "Start bp div squareSize"
  let ?L = "SharesLength bp"
  have L1: "1 \<le> unat ?L" using nz by (simp add: unat_gt_0 Suc_leI)
  have o1: "1 \<le> unat ?o" using fill L1 by simp
  have o0: "?o \<noteq> 0" using o1 by auto
  have sq0: "squareSize \<noteq> 0" using o0 by auto
  have s: "unat ?o < unat squareSize"
  proof -
    have "unat ?o = unat squareSize div 2" by (simp add: unat_div)
    moreover have "0 < unat squareSize" using sq0 by (simp add: unat_gt_0)
    ultimately show ?thesis by simp
  qed
  have r: "unat ?r \<le> unat ?o" using fill by simp
  have nidx: "\<not> ?r > ?o" using r by (simp add: word_less_nat_alt)
  have f: "unat (?o - ?r) = unat ?o - unat ?r" using r by (simp add: unat_sub word_le_nat_alt)
  have first: "?L \<le> ?o - ?r" using f fill by (simp add: word_le_nat_alt)
  have last: "unat (Start bp + ?L - 1) = unat (Start bp) + unat ?L - 1"
  proof -
    have m: "unat (?L - 1) = unat ?L - 1"
      using L1 by (simp add: unat_sub word_le_nat_alt)
    have "unat (Start bp) + unat (?L - 1) < 2 ^ LENGTH(64)"
      using fits L1 m by simp
    then have sum: "unat (Start bp + (?L - 1)) = unat (Start bp) + unat (?L - 1)"
      by (rule unat_add_lem [THEN iffD1])
    have "unat (Start bp + ?L - 1) = unat (Start bp + (?L - 1))"
      by (simp add: add_diff_eq)
    also have "\<dots> = unat (Start bp) + (unat ?L - 1)"
      using sum m by simp
    also have "\<dots> = unat (Start bp) + unat ?L - 1"
      using L1 by simp
    finally show ?thesis .
  qed
  have e: "(Start bp + ?L - 1) mod squareSize = ?o - 1"
  proof -
    have "unat (Start bp) = unat ?q * unat squareSize + unat ?r"
      by (simp add: unat_div unat_mod)
    then have "unat (Start bp) + unat ?L - 1 = unat ?q * unat squareSize + (unat ?o - 1)"
      using fill L1 by simp
    moreover have "unat ?o - 1 < unat squareSize" using s by simp
    ultimately have "(unat (Start bp) + unat ?L - 1) mod unat squareSize = unat ?o - 1"
      by simp
    moreover have "unat (?o - 1) = unat ?o - 1" using o1 by (simp add: unat_sub word_le_nat_alt)
    ultimately show ?thesis
      using last by (simp add: word_unat_eq_iff unat_mod)
  qed
  have e1: "?o - 1 + 1 = ?o" by simp
  have span: "blobSpan squareSize bp =
           Inr \<lparr> start_row = ?q, start_index = ?r, end_row = ?q, end_index = ?o - 1 \<rparr>"
    using sq0 nidx nz first e
    by (simp add: blobSpan_def blobEnd_def Let_def)
  have rows: "collectRows nmt rowRoots ?o
              \<lparr> start_row = ?q, start_index = ?r, end_row = ?q, end_index = ?o - 1 \<rparr>
              (unat ?q) [] [] =
            Inr ([row], take (unat ?L) (drop (unat ?r) row)) \<and>
            length (take (unat ?L) (drop (unat ?r) row)) = unat ?L"
    if "unat ?q < length rowRoots" and "nmt (rowRoots ! unat ?q) = (row, None)"
      and "unat ?o \<le> length row"
  proof -
    have "unat ?o - unat ?r = unat ?L"
      using fill by simp
    then have "drop (unat ?r) (take (unat ?o) row) = take (unat ?L) (drop (unat ?r) row)"
      by (simp add: drop_take)
    with that nidx fill show ?thesis
      by (simp add: Let_def)
  qed
  from span rows show ?thesis
    by blast
qed

theorem blobSpan_to_end_of_first_row_witness:
  "blobSpan 4 (pointerAt 0 2) =
     Inr \<lparr> start_row = 0, start_index = 0, end_row = 0, end_index = 1 \<rparr> \<and>
   collectRows (NmtContent squareTree (noPreimages Sha2_256PreimageType)) [[0], [1], [2], [3]] 2
     \<lparr> start_row = 0, start_index = 0, end_row = 0, end_index = 1 \<rparr> 0 [] [] =
     Inr ([squareRow 0], [squareShare 0 0, squareShare 0 1])"
proof -
  have pointer: "SharesLength (pointerAt 0 2) \<noteq> 0"
    "unat (Start (pointerAt 0 2) mod 4) + unat (SharesLength (pointerAt 0 2)) = unat (4 div 2 :: u64)"
    "unat (Start (pointerAt 0 2)) + unat (SharesLength (pointerAt 0 2)) \<le> 2 ^ 64"
    by (simp_all add: pointerAt_def)
  have row: "unat (Start (pointerAt 0 2) div 4) < length [[0], [1], [2], [3 :: byte]] \<and>
      NmtContent squareTree (noPreimages Sha2_256PreimageType)
        ([[0], [1], [2], [3]] ! unat (Start (pointerAt 0 2) div 4)) = (squareRow 0, None) \<and>
      unat (4 div 2 :: u64) \<le> length (squareRow 0)"
    by (simp add: pointerAt_def squareTree_def squareRow_def)
  from blobSpan_to_end_of_first_row [OF pointer,
      of "[[0], [1], [2], [3]]" "NmtContent squareTree (noPreimages Sha2_256PreimageType)"
        "squareRow 0"] row
  show ?thesis
    by (simp add: pointerAt_def squareRow_def)
qed

text \<open>
  Whenever the deframing step returns a blob, its length is the sequence length read
  from the first share.
\<close>

theorem deframe_length:
  "deframe ns shares = Inr data \<longrightarrow>
     (\<exists>share0 rest. shares = share0 # rest \<and>
        length data = unat (BigEndian_Uint32 (drop (ns * 2 + 1) (take (ns * 2 + 5) share0))))"
proof -
  have le: "unat n \<le> length xs" if "\<not> n > of_nat (length xs)" for n :: u32 and xs :: bytes
  proof -
    from that have "unat n \<le> unat (of_nat (length xs) :: u32)"
      by (simp add: word_less_nat_alt)
    also have "\<dots> \<le> length xs"
      by (simp add: unat_of_nat)
    finally show ?thesis .
  qed
  show ?thesis
    using le
    by (auto simp: deframe_def Let_def split: list.splits if_splits sum.splits)
qed

theorem deframe_length_witness:
  "deframe 29 [firstShare 3 [10, 11], nextShare [12, 13]] = Inr [10, 11, 12] \<and>
   BigEndian_Uint32 (drop (29 * 2 + 1) (take (29 * 2 + 5) (firstShare 3 [10, 11]))) = 3"
proof -
  have blob: "deframe 29 [firstShare 3 [10, 11], nextShare [12, 13]] = Inr [10, 11, 12]"
    by (simp add: deframe_def firstShare_def nextShare_def BigEndian_Uint32_def Let_def)
  with deframe_length [of 29 "[firstShare 3 [10, 11], nextShare [12, 13]]" "[10, 11, 12]"]
  have "unat (BigEndian_Uint32 (drop (29 * 2 + 1) (take (29 * 2 + 5) (firstShare 3 [10, 11])))) = 3"
    by simp
  then have "BigEndian_Uint32 (drop (29 * 2 + 1) (take (29 * 2 + 5) (firstShare 3 [10, 11]))) = 3"
    by (simp add: word_unat_eq_iff)
  with blob show ?thesis
    by simp
qed

subsection \<open>The blobs behind versioned hashes\<close>

lemma getBlobsLoop_all_resolved:
  "\<forall>h \<in> set hs. blobResolved resolve h \<Longrightarrow>
   getBlobsLoop resolve hs acc =
     Inr (acc @ map (\<lambda>h. fst (resolve EthVersionedHashPreimageType h)) hs)"
  by (induction hs arbitrary: acc) (auto simp: blobResolved_def split: prod.splits option.splits)

lemma getBlobsLoop_Inr:
  "getBlobsLoop resolve hs acc = Inr blobs \<Longrightarrow> \<forall>h \<in> set hs. blobResolved resolve h"
  by (induction hs arbitrary: acc)
    (auto simp: blobResolved_def split: prod.splits option.splits if_splits)

lemma getBlobsLoop_first_bad:
  assumes "\<forall>h \<in> set pre. blobResolved resolve h"
    and "resolve EthVersionedHashPreimageType h = (p, None)" and "length p \<noteq> BlobLength"
  shows "getBlobsLoop resolve (pre @ h # post) acc = Inl (BadBlobLength h (length p) BlobLength)"
  using assms
  by (induction pre arbitrary: acc) (auto simp: blobResolved_def split: prod.splits option.splits)

lemma getBlobsLoop_no_oracle_error:
  assumes "\<forall>h \<in> set hs. snd (resolve EthVersionedHashPreimageType h) = None"
    and "\<exists>h \<in> set hs. length (fst (resolve EthVersionedHashPreimageType h)) \<noteq> BlobLength"
  shows "\<exists>h n. getBlobsLoop resolve hs acc = Inl (BadBlobLength h n BlobLength)"
  using assms
  by (induction hs arbitrary: acc) (auto split: prod.splits option.splits)

text \<open>
  Claim C6. \<open>GetBlobs\<close> returns a list of blobs exactly when the oracle resolves every
  hash of the list, under \<open>EthVersionedHashPreimageType\<close>, to a preimage of 131072
  bytes; the list then holds these preimages, one per hash, in the order of the
  hashes. When the hashes before \<open>h\<close> resolve so and \<open>h\<close> resolves to a preimage of
  any other length, the call returns the \<open>BadBlobLength\<close> error for \<open>h\<close>; and when the
  oracle returns no error for any hash of the list, some preimage of another length
  makes the call return a \<open>BadBlobLength\<close> error.
\<close>

theorem GetBlobs_in_order_or_BadBlobLength:
  "(GetBlobs resolve batchBlockHash hs = Inr blobs \<longleftrightarrow>
      (\<forall>h \<in> set hs. blobResolved resolve h) \<and>
      blobs = map (\<lambda>h. fst (resolve EthVersionedHashPreimageType h)) hs) \<and>
   (GetBlobs resolve batchBlockHash hs = Inr blobs \<longrightarrow>
      length blobs = length hs \<and> (\<forall>b \<in> set blobs. length b = 131072)) \<and>
   ((\<forall>h \<in> set pre. blobResolved resolve h) \<and>
    resolve EthVersionedHashPreimageType h = (p, None) \<and> length p \<noteq> 131072 \<longrightarrow>
      GetBlobs resolve batchBlockHash (pre @ h # post) =
        Inl (BadBlobLength h (length p) 131072)) \<and>
   ((\<forall>h \<in> set hs. snd (resolve EthVersionedHashPreimageType h) = None) \<and>
    (\<exists>h \<in> set hs. length (fst (resolve EthVersionedHashPreimageType h)) \<noteq> 131072) \<longrightarrow>
      (\<exists>h n. GetBlobs resolve batchBlockHash hs = Inl (BadBlobLength h n 131072)))"
proof -
  have iff: "GetBlobs resolve batchBlockHash hs = Inr blobs \<longleftrightarrow>
      (\<forall>h \<in> set hs. blobResolved resolve h) \<and>
      blobs = map (\<lambda>h. fst (resolve EthVersionedHashPreimageType h)) hs"
    using getBlobsLoop_all_resolved [of hs resolve "[]"]
      getBlobsLoop_Inr [of resolve hs "[]" blobs]
    by (auto simp: GetBlobs_def)
  have lens: "GetBlobs resolve batchBlockHash hs = Inr blobs \<longrightarrow>
      length blobs = length hs \<and> (\<forall>b \<in> set blobs. length b = 131072)"
    using iff by (auto simp: blobResolved_def BlobLength_def)
  have bad: "(\<forall>h \<in> set pre. blobResolved resolve h) \<and>
      resolve EthVersionedHashPreimageType h = (p, None) \<and> length p \<noteq> 131072 \<longrightarrow>
      GetBlobs resolve batchBlockHash (pre @ h # post) =
        Inl (BadBlobLength h (length p) 131072)"
    using getBlobsLoop_first_bad [of pre resolve h p post "[]"]
    by (auto simp: GetBlobs_def BlobLength_def)
  have some: "(\<forall>h \<in> set hs. snd (resolve EthVersionedHashPreimageType h) = None) \<and>
      (\<exists>h \<in> set hs. length (fst (resolve EthVersionedHashPreimageType h)) \<noteq> 131072) \<longrightarrow>
      (\<exists>h n. GetBlobs resolve batchBlockHash hs = Inl (BadBlobLength h n 131072))"
    using getBlobsLoop_no_oracle_error [of hs resolve "[]"]
    by (auto simp: GetBlobs_def BlobLength_def)
  from iff lens bad some show ?thesis
    by blast
qed

theorem GetBlobs_in_order_or_BadBlobLength_witness:
  "GetBlobs blobOracle 0 [1, 2] = Inr [replicate 131072 1, replicate 131072 2] \<and>
   GetBlobs blobOracle 0 [1, 3, 2] = Inl (BadBlobLength 3 131071 131072)"
proof -
  have ok: "blobResolved blobOracle 1" "blobResolved blobOracle 2"
    by (simp_all add: blobResolved_def blobOracle_def BlobLength_def)
  have bad: "blobOracle EthVersionedHashPreimageType 3 = (replicate 131071 0, None)"
    "length (replicate 131071 (0 :: byte)) \<noteq> 131072"
    by (simp_all add: blobOracle_def)
  have blobs: "[replicate 131072 1, replicate 131072 2] =
      map (\<lambda>h. fst (blobOracle EthVersionedHashPreimageType h)) [1, 2]"
    by (simp add: blobOracle_def)
  from GetBlobs_in_order_or_BadBlobLength
      [of blobOracle 0 "[1, 2]" "[replicate 131072 1, replicate 131072 2]" "[1]" 3
        "replicate 131071 0" "[2]"]
    ok bad blobs
  show ?thesis
    by simp
qed

section \<open>Properties of the inbox and the replay\<close>

text \<open>
  Claim C8, as the source has it: \<open>PeekSequencerInbox\<close> panics on \<open>res[:8]\<close> exactly
  when the slice that \<open>ReadInboxMessage\<close> returned has a capacity below 8, and
  otherwise returns that slice, the zero hash and no error. So it returns for every
  payload of at least 8 bytes, and panics for a payload shorter than 8 bytes whose
  capacity is its length.
\<close>

theorem PeekSequencerInbox_panics_on_capacity:
  "PeekSequencerInbox w =
     (if cap (ReadInboxMessage w (GetInboxPosition w)) < 8 then Inl SliceBoundsOutOfRange
      else Inr (ReadInboxMessage w (GetInboxPosition w), 0, None)) \<and>
   (8 \<le> len (ReadInboxMessage w (GetInboxPosition w)) \<longrightarrow>
      PeekSequencerInbox w = Inr (ReadInboxMessage w (GetInboxPosition w), 0, None)) \<and>
   (len (ReadInboxMessage w (GetInboxPosition w)) < 8 \<and>
    cap (ReadInboxMessage w (GetInboxPosition w)) =
      len (ReadInboxMessage w (GetInboxPosition w)) \<longrightarrow>
      PeekSequencerInbox w = Inl SliceBoundsOutOfRange)"
  by (simp add: PeekSequencerInbox_def slice_to_def Let_def cap_def len_def)

theorem PeekSequencerInbox_panics_on_capacity_witness:
  "len (ReadInboxMessage tightTape (GetInboxPosition tightTape)) = 3 \<and>
   cap (ReadInboxMessage tightTape (GetInboxPosition tightTape)) = 3 \<and>
   PeekSequencerInbox tightTape = Inl SliceBoundsOutOfRange \<and>
   len (ReadInboxMessage fullTape (GetInboxPosition fullTape)) = 9 \<and>
   PeekSequencerInbox fullTape =
     Inr (\<lparr> elems = [1, 2, 3, 4, 5, 6, 7, 8, 9], spare = [] \<rparr>, 0, None)"
  using PeekSequencerInbox_panics_on_capacity [of tightTape]
    PeekSequencerInbox_panics_on_capacity [of fullTape]
  by (simp add: cap_def len_def tightTape_def fullTape_def roomyTape_def)

text \<open>
  The claim as stated fails for a payload of three bytes that lies in an array of
  128: \<open>res[:8]\<close> is in range, and the payload is returned.
\<close>

theorem PeekSequencerInbox_short_payload_returned:
  "len (ReadInboxMessage roomyTape (GetInboxPosition roomyTape)) = 3 \<and>
   cap (ReadInboxMessage roomyTape (GetInboxPosition roomyTape)) = 128 \<and>
   PeekSequencerInbox roomyTape =
     Inr (ReadInboxMessage roomyTape (GetInboxPosition roomyTape), 0, None)"
  by (simp add: PeekSequencerInbox_def slice_to_def Let_def cap_def len_def roomyTape_def)

text \<open>
  Claim C3. Unless both providers are enabled (when nothing is popped), \<open>readMessage\<close>
  constructs one multiplexer and calls its \<open>Pop\<close> once; the keyset validation mode
  of that multiplexer is \<open>KeysetDontValidate\<close> when the backend reports a position
  within the message above 0, and \<open>KeysetPanicIfInvalid\<close> when it reports 0.
\<close>

theorem readMessage_keyset_mode:
  "\<not> (DataAvailabilityCommittee p \<and> CelestiaDA p) \<longrightarrow>
     (\<exists>mux. newInboxMultiplexer hdr p w = Inr mux \<and>
        keysetValidationMode mux =
          (if GetPositionWithinMessage w > 0 then KeysetDontValidate else KeysetPanicIfInvalid) \<and>
        (GetPositionWithinMessage w > 0 \<longrightarrow> keysetValidationMode mux = KeysetDontValidate) \<and>
        (GetPositionWithinMessage w = 0 \<longrightarrow> keysetValidationMode mux = KeysetPanicIfInvalid) \<and>
        readMessage Pop hdr p w =
          (case Pop mux w of
             ((message, Some e), w') \<Rightarrow> (Inl (ErrorReadingInboxMultiplexer e), w')
           | ((message, None), w') \<Rightarrow> (Inr message, w')))"
  by (auto simp: newInboxMultiplexer_def readMessage_def Let_def)

theorem readMessage_keyset_mode_witness:
  "GetPositionWithinMessage resumedTape = 3 \<and>
   newInboxMultiplexer None celestiaParams resumedTape =
     Inr \<lparr> delayedMessagesRead = 0, daProviders = [DAProviderCelestia, DAProviderBlobReader],
           keysetValidationMode = KeysetDontValidate \<rparr> \<and>
   GetPositionWithinMessage roomyTape = 0 \<and>
   newInboxMultiplexer None celestiaParams roomyTape =
     Inr \<lparr> delayedMessagesRead = 0, daProviders = [DAProviderCelestia, DAProviderBlobReader],
           keysetValidationMode = KeysetPanicIfInvalid \<rparr>"
proof -
  have one: "\<not> (DataAvailabilityCommittee celestiaParams \<and> CelestiaDA celestiaParams)"
    by (simp add: celestiaParams_def zeroChainParams_def)
  have pos: "GetPositionWithinMessage resumedTape = 3" "GetPositionWithinMessage roomyTape = 0"
    by (simp_all add: resumedTape_def roomyTape_def)
  from readMessage_keyset_mode [of celestiaParams None resumedTape "InboxPop (replayEnv celestiaParams 11)"]
    one pos
  obtain mux where "newInboxMultiplexer None celestiaParams resumedTape = Inr mux"
    and "keysetValidationMode mux = KeysetDontValidate"
    by auto
  moreover
  from readMessage_keyset_mode [of celestiaParams None roomyTape "InboxPop (replayEnv celestiaParams 11)"]
    one pos
  obtain mux' where "newInboxMultiplexer None celestiaParams roomyTape = Inr mux'"
    and "keysetValidationMode mux' = KeysetPanicIfInvalid"
    by auto
  ultimately show ?thesis
    using pos
    by (auto simp: newInboxMultiplexer_def celestiaParams_def zeroChainParams_def Let_def)
qed





text \<open>
  Claim C7. Once the new block is there, \<open>main\<close> panics when the ArbOS format version
  of its deserialised header is 0, and the tape is then as the production of the
  block left it: neither the block hash nor the send root is written. For every other
  version \<open>main\<close> completes, and the tape holds the hash of the new block and the send
  root of its header.
\<close>

theorem main_checks_ArbOSFormatVersion:
  "newBlockOf env w = (Inr newBlock, w') \<longrightarrow>
     (ArbOSFormatVersion (DeserializeHeaderExtraInformation env (BlockHeader newBlock)) = 0 \<longrightarrow>
        main env w = (Inl ErrorDeserializingHeaderExtraInfo, w')) \<and>
     (ArbOSFormatVersion (DeserializeHeaderExtraInformation env (BlockHeader newBlock)) \<noteq> 0 \<longrightarrow>
        main env w =
          (Inr (),
           w'\<lparr> GetLastBlockHash := BlockHash newBlock,
               SendRoot := HeaderSendRoot
                             (DeserializeHeaderExtraInformation env (BlockHeader newBlock)) \<rparr>))"
  by (simp add: main_def writeNewBlock_def Let_def SetLastBlockHash_def SetSendRoot_def)

lemma replayEnv_new_block:
  "newBlockOf (replayEnv celestiaParams v) roomyTape =
     (Inr \<lparr> BlockHash = 9, BlockHeader = \<lparr> Root = 8, Nonce = 5 \<rparr> \<rparr>,
      roomyTape \<lparr> GetPositionWithinMessage := 1 \<rparr>)"
  by (simp add: newBlockOf_def nextBlock_def loadChainConfig_def readMessage_def
      newInboxMultiplexer_def getBlockHeaderByHash_def replayEnv_def roomyTape_def
      celestiaParams_def zeroChainParams_def Let_def)

theorem main_checks_ArbOSFormatVersion_witness:
  "main (replayEnv celestiaParams 0) roomyTape =
     (Inl ErrorDeserializingHeaderExtraInfo, roomyTape \<lparr> GetPositionWithinMessage := 1 \<rparr>) \<and>
   GetLastBlockHash (roomyTape \<lparr> GetPositionWithinMessage := 1 \<rparr>) = 1 \<and>
   SendRoot (roomyTape \<lparr> GetPositionWithinMessage := 1 \<rparr>) = 0 \<and>
   main (replayEnv celestiaParams 11) roomyTape =
     (Inr (), roomyTape \<lparr> GetPositionWithinMessage := 1, GetLastBlockHash := 9, SendRoot := 3 \<rparr>)"
proof -
  have version: "ArbOSFormatVersion (DeserializeHeaderExtraInformation (replayEnv celestiaParams v) h) = v"
    "HeaderSendRoot (DeserializeHeaderExtraInformation (replayEnv celestiaParams v) h) = 3" for v h
    by (simp_all add: replayEnv_def)
  from main_checks_ArbOSFormatVersion [of "replayEnv celestiaParams 0" roomyTape]
    main_checks_ArbOSFormatVersion [of "replayEnv celestiaParams 11" roomyTape]
    replayEnv_new_block [of 0] replayEnv_new_block [of 11] version
  show ?thesis
    by (simp add: roomyTape_def)
qed

text \<open>
  The multiplexer that \<open>readMessage\<close> constructs starts from the nonce of the last
  block header (0 when there is none) as its count of delayed messages; its providers
  are the DAS provider exactly when \<open>DataAvailabilityCommittee\<close> is set, the Celestia
  provider exactly when \<open>CelestiaDA\<close> is set, and always, last, the blob reader.
\<close>

theorem newInboxMultiplexer_providers:
  "newInboxMultiplexer hdr p w = Inr mux \<longrightarrow>
     delayedMessagesRead mux = (case hdr of None \<Rightarrow> 0 | Some h \<Rightarrow> Nonce h) \<and>
     last (daProviders mux) = DAProviderBlobReader \<and>
     (DAProviderDAS \<in> set (daProviders mux) \<longleftrightarrow> DataAvailabilityCommittee p) \<and>
     (DAProviderCelestia \<in> set (daProviders mux) \<longleftrightarrow> CelestiaDA p) \<and>
     length (daProviders mux) \<le> 2"
  by (auto simp: newInboxMultiplexer_def Let_def split: if_splits)

theorem newInboxMultiplexer_providers_witness:
  "newInboxMultiplexer (Some \<lparr> Root = 7, Nonce = 5 \<rparr>) celestiaParams roomyTape =
     Inr \<lparr> delayedMessagesRead = 5, daProviders = [DAProviderCelestia, DAProviderBlobReader],
           keysetValidationMode = KeysetPanicIfInvalid \<rparr>"
proof -
  have mux: "newInboxMultiplexer (Some \<lparr> Root = 7, Nonce = 5 \<rparr>) celestiaParams roomyTape =
     Inr \<lparr> delayedMessagesRead = 5, daProviders = [DAProviderCelestia, DAProviderBlobReader],
           keysetValidationMode = KeysetPanicIfInvalid \<rparr>"
    by (simp add: newInboxMultiplexer_def celestiaParams_def zeroChainParams_def roomyTape_def
        Let_def)
  with newInboxMultiplexer_providers [of "Some \<lparr> Root = 7, Nonce = 5 \<rparr>" celestiaParams roomyTape]
  show ?thesis
    by simp
qed

section \<open>Properties of the sync monitor\<close>

lemma map_set_nonempty: "map_set k v m \<noteq> []"
  by (cases m) auto

lemma u64_minus_one: "(- 1 :: u64) = 18446744073709551615"
  by simp

text \<open>
  Claim C9. \<open>Synced\<close> returns true exactly when \<open>SyncProgressMap\<close> returns the empty
  map. On a monitor whose \<open>Initialize\<close> was never called (\<open>initialized\<close> is false, as
  \<open>NewSyncMonitor\<close> leaves it), \<open>SyncProgressMap\<close> returns the one-entry map
  \<open>{"err": "uninitialized"}\<close> and \<open>Synced\<close> returns false.
\<close>

theorem Synced_iff_empty_progress:
  "(Synced s = Inr True \<longleftrightarrow> SyncProgressMap s = Inr []) \<and>
   (\<not> initialized s \<longrightarrow>
      SyncProgressMap s = Inr [(''err'', AString ''uninitialized'')] \<and>
      Synced s = Inr False) \<and>
   SyncProgressMap (NewSyncMonitor cfg) = Inr [(''err'', AString ''uninitialized'')] \<and>
   Synced (NewSyncMonitor cfg) = Inr False"
  by (auto simp: Synced_def SyncProgressMap_def NewSyncMonitor_def split: sum.splits)

theorem Synced_iff_empty_progress_witness:
  "\<not> initialized (NewSyncMonitor None) \<and>
   SyncProgressMap (NewSyncMonitor None) = Inr [(''err'', AString ''uninitialized'')] \<and>
   Synced (NewSyncMonitor None) = Inr False \<and>
   SyncProgressMap syncedMonitor = Inr [] \<and>
   Synced syncedMonitor = Inr True"
proof -
  have empty: "SyncProgressMap syncedMonitor = Inr []"
    by (simp add: SyncProgressMap_def syncedMonitor_def progress_streamer_def
        lagExceeded_def DefaultSyncMonitorConfig_def)
  have fresh: "\<not> initialized (NewSyncMonitor None)"
    by (simp add: NewSyncMonitor_def)
  from Synced_iff_empty_progress [of syncedMonitor None] empty
  have "Synced syncedMonitor = Inr True"
    by simp
  with Synced_iff_empty_progress [of "NewSyncMonitor None" None] empty fresh
  show ?thesis
    by simp
qed

text \<open>
  Claim C10. \<open>SafeBlockNumber\<close> and \<open>FinalizedBlockNumber\<close> return, with a \<open>nil\<close>
  error, \<open>MessageIndexToBlockNumber(msg - 1)\<close>, where \<open>msg\<close> is the message count the
  inbox reader reports, lowered to the validated count when the configuration waits for
  the validator. The subtraction is on \<open>uint64\<close>: when that count is \<open>0\<close>, the argument
  is \<open>2^64 - 1\<close>, and no error is returned.
\<close>

theorem BlockNumber_unchecked_subtraction:
  assumes "inboxReader s = Some ir" and "initialized s" and "config s = Some c"
    and "exec s = Some ex"
    and "SafeBlockWaitForBlockValidator c \<or> FinalizedBlockWaitForBlockValidator c \<longrightarrow>
           txStreamer s = Some ts \<and> validator ts = Some v"
  shows
    "(GetSafeMsgCount ir = (msg, None) \<longrightarrow>
        SafeBlockNumber s =
          Inr (MessageIndexToBlockNumber ex
                 ((if SafeBlockWaitForBlockValidator c \<and> msg > GetValidated v
                   then GetValidated v else msg) - 1), None)) \<and>
     (GetFinalizedMsgCount ir = (msg, None) \<longrightarrow>
        FinalizedBlockNumber s =
          Inr (MessageIndexToBlockNumber ex
                 ((if FinalizedBlockWaitForBlockValidator c \<and> msg > GetValidated v
                   then GetValidated v else msg) - 1), None)) \<and>
     (GetSafeMsgCount ir = (msg, None) \<and>
      (msg = 0 \<or> SafeBlockWaitForBlockValidator c \<and> GetValidated v = 0) \<longrightarrow>
        SafeBlockNumber s = Inr (MessageIndexToBlockNumber ex 18446744073709551615, None)) \<and>
     (GetFinalizedMsgCount ir = (msg, None) \<and>
      (msg = 0 \<or> FinalizedBlockWaitForBlockValidator c \<and> GetValidated v = 0) \<longrightarrow>
        FinalizedBlockNumber s = Inr (MessageIndexToBlockNumber ex 18446744073709551615, None)) \<and>
     unat (18446744073709551615 :: u64) = 2 ^ 64 - 1"
  using assms
  by (auto simp: SafeBlockNumber_def FinalizedBlockNumber_def getLatestValidatedCount_def
      u64_minus_one word_gt_0)

theorem BlockNumber_unchecked_subtraction_witness:
  "GetSafeMsgCount emptyInboxReader = (5, None) \<and>
   GetFinalizedMsgCount emptyInboxReader = (0, None) \<and>
   SafeBlockWaitForBlockValidator waitingConfig \<and>
   \<not> FinalizedBlockWaitForBlockValidator waitingConfig \<and>
   GetValidated idleValidator = 0 \<and>
   SafeBlockNumber emptyInboxMonitor = Inr (18446744073709551615, None) \<and>
   FinalizedBlockNumber emptyInboxMonitor = Inr (18446744073709551615, None)"
proof -
  have ctx: "inboxReader emptyInboxMonitor = Some emptyInboxReader"
    "initialized emptyInboxMonitor" "config emptyInboxMonitor = Some waitingConfig"
    "exec emptyInboxMonitor = Some echoExec"
    "SafeBlockWaitForBlockValidator waitingConfig \<or>
       FinalizedBlockWaitForBlockValidator waitingConfig \<longrightarrow>
     txStreamer emptyInboxMonitor = Some idleStreamer \<and> validator idleStreamer = Some idleValidator"
    by (simp_all add: emptyInboxMonitor_def idleStreamer_def)
  have vals: "GetSafeMsgCount emptyInboxReader = (5, None)"
    "GetFinalizedMsgCount emptyInboxReader = (0, None)"
    "SafeBlockWaitForBlockValidator waitingConfig"
    "\<not> FinalizedBlockWaitForBlockValidator waitingConfig"
    "GetValidated idleValidator = 0"
    "MessageIndexToBlockNumber echoExec = (\<lambda>m. m)"
    by (simp_all add: emptyInboxReader_def waitingConfig_def DefaultSyncMonitorConfig_def
        idleValidator_def echoExec_def)
  from BlockNumber_unchecked_subtraction [OF ctx, of 5]
    BlockNumber_unchecked_subtraction [OF ctx, of 0] vals
  show ?thesis
    by simp
qed

end
